theory Spec2Isabelle
  imports Main "HOL-Library.Char_ord" "HOL-Library.List_Lexorder"
begin

section \<open>Part retrieval: inventory, retrieval routing and collation\<close>

text \<open>
  A shallow embedding of \<^verbatim>\<open>scripts/scriptutils/part_retrieval.py\<close>.

  Python strings are \<open>string\<close>; a dictionary is a map \<open>'k \<rightharpoonup> 'v\<close> where only its
  content is observed and an association list where the order of its entries is (the
  ordered table \<^verbatim>\<open>source_list\<close> and the rewriting plan of the collator); an exception is
  a value of type \<open>error\<close> on the left of a sum. What the module obtains from outside
  (the network clients, the file parsers, the helper functions of other packages, the
  constants of the sibling module \<^verbatim>\<open>directories\<close>) is a field of the record \<open>env\<close> or
  a parameter of the function that uses it, so that every theorem holds for whatever
  those collaborators answer. The cache files and the network requests are explicit
  state in the record \<open>world\<close>.
\<close>

subsection \<open>String helpers of Python\<close>

definition startswith :: "string \<Rightarrow> string \<Rightarrow> bool" where
  "startswith s p = (take (length p) s = p)"

definition endswith :: "string \<Rightarrow> string \<Rightarrow> bool" where
  "endswith s x = (length x \<le> length s \<and> drop (length s - length x) s = x)"

definition removeprefix :: "string \<Rightarrow> string \<Rightarrow> string" where
  "removeprefix s p = (if startswith s p then drop (length p) s else s)"

definition removesuffix :: "string \<Rightarrow> string \<Rightarrow> string" where
  "removesuffix s x = (if x \<noteq> [] \<and> endswith s x then take (length s - length x) s else s)"

text \<open>\<^verbatim>\<open>s.replace(a, b)\<close> for one-character \<open>a\<close> and \<open>b\<close>.\<close>

definition replace_char :: "char \<Rightarrow> char \<Rightarrow> string \<Rightarrow> string" where
  "replace_char a b s = map (\<lambda>c. if c = a then b else c) s"

text \<open>\<^verbatim>\<open>os.path.join(a, b)\<close> for a relative second component.\<close>

definition path_join :: "string \<Rightarrow> string \<Rightarrow> string" where
  "path_join a b = (if a = [] \<or> endswith a ''/'' then a @ b else a @ ''/'' @ b)"

text \<open>\<^verbatim>\<open>os.path.basename\<close>: what follows the last separator.\<close>

definition basename :: "string \<Rightarrow> string" where
  "basename p = rev (takeWhile (\<lambda>c. c \<noteq> CHR ''/'') (rev p))"

text \<open>
  \<^verbatim>\<open>str.strip()\<close>: leading and trailing white space removed. The characters are the
  ones below 256 for which \<^verbatim>\<open>str.isspace\<close> holds.
\<close>

definition isspace :: "char \<Rightarrow> bool" where
  "isspace c = (of_char c \<in> {9, 10, 11, 12, 13, 28, 29, 30, 31, 32, 133, 160 :: nat})"

definition strip :: "string \<Rightarrow> string" where
  "strip s = rev (dropWhile isspace (rev (dropWhile isspace s)))"

subsection \<open>Constants of the module\<close>

definition GENBANK_CACHE_FILE :: string where
  "GENBANK_CACHE_FILE = ''GenBank_imports.gb''"

definition IGEM_SBOL2_CACHE_FILE :: string where
  "IGEM_SBOL2_CACHE_FILE = ''iGEM_SBOL2_imports.xml''"

definition IGEM_FASTA_CACHE_FILE :: string where
  "IGEM_FASTA_CACHE_FILE = ''iGEM_raw_imports.fasta''"

text \<open>The two patterns have one hole, at the end: \<^verbatim>\<open>PATTERN.format(x)\<close> appends \<open>x\<close>.\<close>

definition FASTA_iGEM_PATTERN :: "string \<Rightarrow> string" where
  "FASTA_iGEM_PATTERN x =
     ''http://parts.igem.org/cgi/partsdb/composite_edit/putseq.cgi?part='' @ x"

definition SBOL_iGEM_PATTERN :: "string \<Rightarrow> string" where
  "SBOL_iGEM_PATTERN x = ''https://synbiohub.org/public/igem/BBa_'' @ x"

definition iGEM_SOURCE_PREFIX :: string where
  "iGEM_SOURCE_PREFIX = ''http://parts.igem.org/''"

definition NCBI_PREFIX :: string where
  "NCBI_PREFIX = ''https://www.ncbi.nlm.nih.gov/nuccore/''"

definition BASIC_PARTS_COLLECTION :: string where
  "BASIC_PARTS_COLLECTION = ''BasicParts''"

subsection \<open>Exceptions\<close>

text \<open>
  The error codes of \<^verbatim>\<open>sbol2.SBOLErrorCode\<close>: the code tests for one of them only, the
  others are numbered. \<open>error\<close> lists the exception classes that the module raises or
  catches; \<open>isinstance_IOError\<close> is the class test of \<^verbatim>\<open>except IOError\<close>
  (\<^verbatim>\<open>HTTPError\<close> is a subclass of \<^verbatim>\<open>URLError\<close>, itself one of \<^verbatim>\<open>OSError\<close>, which
  \<^verbatim>\<open>IOError\<close> names).
\<close>

datatype SBOLErrorCode = SBOL_ERROR_NOT_FOUND | SBOL_ERROR_OTHER nat

datatype error =
    HTTPError
  | URLError
  | IOError
  | UnicodeDecodeError
  | SBOLError SBOLErrorCode
  | ValueError string
  | TypeError
  | AttributeError

fun isinstance_IOError :: "error \<Rightarrow> bool" where
  "isinstance_IOError HTTPError = True"
| "isinstance_IOError URLError = True"
| "isinstance_IOError IOError = True"
| "isinstance_IOError _ = False"

subsection \<open>Identity and alias codec\<close>

text \<open>
  \<^verbatim>\<open>string_to_display_id\<close> is imported from the package \<^verbatim>\<open>sbol_utilities\<close>; the two
  functions take it as the parameter \<open>sid\<close>.
\<close>

definition sbol_uri_to_accession :: "string \<Rightarrow> string \<Rightarrow> string" where
  "sbol_uri_to_accession uri prefix = replace_char CHR ''_'' CHR ''.'' (removeprefix uri prefix)"

definition accession_to_sbol_uri :: "(string \<Rightarrow> string) \<Rightarrow> string \<Rightarrow> string \<Rightarrow> string" where
  "accession_to_sbol_uri sid accession prefix =
     (let prefix' = (if \<not> endswith prefix ''/'' then prefix @ ''/'' else prefix)
      in prefix' @ sid accession)"

text \<open>
  A sample sanitizer for closed examples: it writes an underscore for a dot and changes
  nothing else, which is what a display-id sanitizer does to an accession that begins
  with a letter and is made of letters, digits, underscores and dots.
\<close>

definition dot_sanitizer :: "string \<Rightarrow> string" where
  "dot_sanitizer s = replace_char CHR ''.'' CHR ''_'' s"

definition prefix_remappings :: "(string \<times> string) list" where
  "prefix_remappings = [(''https://synbiohub.org/public/igem/BBa_'', iGEM_SOURCE_PREFIX)]"

fun remap_prefix_loop :: "(string \<times> string) list \<Rightarrow> string \<Rightarrow> string" where
  "remap_prefix_loop [] uri = uri"
| "remap_prefix_loop ((old, new) # rest) uri =
     (if startswith uri old then new @ removeprefix uri old else remap_prefix_loop rest uri)"

definition remap_prefix :: "string \<Rightarrow> string" where
  "remap_prefix uri = remap_prefix_loop prefix_remappings uri"

subsection \<open>Import files\<close>

text \<open>
  An SBOL3 document is the list of its top-level objects: a sequence (identity, name,
  description, elements), a component (identity, the identities of its sequences), a
  collection (identity, the identities of its members), or an object of another class.
  The FASTA branch of \<open>get_sbol3_doc\<close> builds sequences and components.
\<close>

datatype top_level =
    Sequence string string string string
  | Component string "string list"
  | Collection string "string list"
  | Top_level string

fun identity :: "top_level \<Rightarrow> string" where
  "identity (Sequence i _ _ _) = i"
| "identity (Component i _) = i"
| "identity (Collection i _) = i"
| "identity (Top_level i) = i"

fun is_Component :: "top_level \<Rightarrow> bool" where
  "is_Component (Component _ _) = True"
| "is_Component _ = False"

type_synonym sbol3_document = "top_level list"

record ImportFile =
  path :: string
  file_type :: string
  namespace :: "string option"
  doc :: "sbol3_document option"

text \<open>
  \<^verbatim>\<open>ImportFile.__init__\<close>; \<open>keys\<close> are the keys of the table \<^verbatim>\<open>extensions\<close> of the
  module \<^verbatim>\<open>directories\<close>. A namespace that is \<^verbatim>\<open>None\<close> or empty is stored as \<^verbatim>\<open>None\<close>.
\<close>

definition ImportFile_init ::
  "string list \<Rightarrow> string \<Rightarrow> string \<Rightarrow> string option \<Rightarrow> error + ImportFile" where
  "ImportFile_init keys p ft ns =
     (if ft \<notin> set keys then Inl (ValueError (''Unknown file type: \"'' @ ft @ ''\"''))
      else Inr \<lparr>path = p, file_type = ft,
                namespace = (case ns of None \<Rightarrow> None
                             | Some n \<Rightarrow> if n = [] then None else Some (removesuffix n ''/'')),
                doc = None\<rparr>)"

subsection \<open>Package inventory\<close>

text \<open>
  The three fields of \<^verbatim>\<open>PackageInventory\<close>. An import file is a value: the set of
  files and the location map hold the fields of the instance, which no function of the
  module changes once the instance is built.
\<close>

record PackageInventory =
  files :: "ImportFile set"
  locations :: "string \<rightharpoonup> ImportFile"
  aliases :: "string \<rightharpoonup> string"

definition PackageInventory_init :: PackageInventory where
  "PackageInventory_init = \<lparr>files = {}, locations = Map.empty, aliases = Map.empty\<rparr>"

text \<open>
  The body of the loop of \<open>add\<close> over one key: the state is the alias map and the set of
  keys for which \<^verbatim>\<open>logging.warning\<close> has reported a duplicate.
\<close>

definition add_key ::
  "string \<Rightarrow> string \<Rightarrow> (string \<rightharpoonup> string) \<times> string set \<Rightarrow> (string \<rightharpoonup> string) \<times> string set" where
  "add_key uri key st =
     (case st of (al, warned) \<Rightarrow>
        (al(key \<mapsto> uri), if key \<in> dom al then insert key warned else warned))"

text \<open>
  \<^verbatim>\<open>PackageInventory.add\<close>. The keys are a Python set, whose iteration order is not
  specified: the model runs through them in the order of the arguments, without
  repetition. The result is the inventory and the keys warned about in this call.
\<close>

definition add ::
  "PackageInventory \<Rightarrow> ImportFile \<Rightarrow> string \<Rightarrow> string list \<Rightarrow> PackageInventory \<times> string set" where
  "add i import_file uri als =
     (let files' = insert import_file (files i);
          locations' = (locations i)(uri \<mapsto> import_file);
          keys = remdups (als @ [uri]);
          (aliases', warned) = fold (add_key uri) keys (aliases i, {})
      in (i\<lparr>files := files', locations := locations', aliases := aliases'\<rparr>, warned))"

text \<open>The inventories that some sequence of \<open>add\<close> calls builds from the empty one.\<close>

inductive inventory_reachable :: "PackageInventory \<Rightarrow> bool" where
  start: "inventory_reachable PackageInventory_init"
| step: "inventory_reachable i \<Longrightarrow> inventory_reachable (fst (add i import_file uri als))"

subsection \<open>The collaborators and the outside world\<close>

text \<open>
  What the parsers return: a FASTA record (\<^verbatim>\<open>id\<close>, \<^verbatim>\<open>name\<close>, \<^verbatim>\<open>description\<close>,
  \<^verbatim>\<open>seq\<close>), a GenBank record (\<^verbatim>\<open>id\<close>, \<^verbatim>\<open>name\<close> and its text \<^verbatim>\<open>format('gb')\<close>), and a
  member of a collection of the package specification (\<^verbatim>\<open>identity\<close>, \<^verbatim>\<open>sequences\<close>).
\<close>

record fasta_record =
  fa_id :: string
  fa_name :: string
  fa_description :: string
  fa_seq :: string

record genbank_record =
  rec_id :: string
  rec_name :: string
  rec_gb :: string

record part =
  part_identity :: string
  part_sequences :: "string list"

text \<open>The requests sent to the network: the batched fetch of NCBI, the pull of
  one URI from a SynBioHub server, the download of a URL with its timeout in seconds.\<close>

datatype net_call =
    Efetch string
  | Pull string string
  | Urlopen string nat

text \<open>
  The collaborators. An answer of type \<open>error + 'a\<close> is the exception raised or the value
  returned; the three network clients see the requests made so far, so that their
  answers may change from one request to the next. An SBOL2 document is a list of
  objects of any type \<open>'o\<close>, and \<open>pull\<close> returns the document with the pulled objects
  added.
  \<^item> \<open>string_to_display_id\<close>, \<open>unambiguous_dna_sequence\<close>: \<^verbatim>\<open>sbol_utilities\<close>;
  \<^item> \<open>url_server\<close>: \<^verbatim>\<open>urlunparse([p.scheme, p.netloc, '', '', '', ''])\<close> of the parsed URL;
  \<^item> \<open>package_stem\<close>: module \<^verbatim>\<open>package_specification\<close>;
  \<^item> \<open>EXPORT_DIRECTORY\<close>, \<open>SBOL_EXPORT_NAME\<close>, and the table
    \<^verbatim>\<open>extensions\<close> (its keys, its entries for FASTA and GenBank, the items of its entry
    for SBOL3): module \<^verbatim>\<open>directories\<close>;
  \<^item> \<open>glob\<close>: \<^verbatim>\<open>glob.glob\<close>; \<open>parse_fasta\<close>, \<open>parse_genbank\<close>: opening a file and
    \<^verbatim>\<open>SeqIO.parse\<close>; \<open>read_sbol3\<close>: \<^verbatim>\<open>sbol3.Document.read\<close>;
  \<^item> \<open>import_genbank\<close>: \<^verbatim>\<open>importFromFormat\<close> into an SBOL2 document with the given
    homespace, then \<^verbatim>\<open>convert2to3\<close>; \<open>read_sbol2\<close>: \<^verbatim>\<open>sbol2.Document.read\<close>, then
    \<^verbatim>\<open>convert2to3\<close>;
  \<^item> \<open>read_spec\<close>: reading the package specification; the document read is the function
    from a collection's name to its members, each one looked up (\<^verbatim>\<open>find(name).members\<close>,
    \<^verbatim>\<open>lookup()\<close>), \<open>None\<close> where \<^verbatim>\<open>find\<close> or \<^verbatim>\<open>lookup\<close> returns \<^verbatim>\<open>None\<close>;
  \<^item> \<open>efetch\<close>: \<^verbatim>\<open>Entrez.efetch\<close> and the parsing of its answer; \<open>pull\<close>:
    \<^verbatim>\<open>PartShop(server).pull(url, doc)\<close>; \<open>urlopen\<close>: \<^verbatim>\<open>urlopen(url, timeout)\<close>, reading
    and decoding the body.
\<close>

record 'o env =
  string_to_display_id :: "string \<Rightarrow> string"
  unambiguous_dna_sequence :: "string \<Rightarrow> bool"
  url_server :: "string \<Rightarrow> string"
  package_stem :: "string \<Rightarrow> string"
  EXPORT_DIRECTORY :: string
  SBOL_EXPORT_NAME :: string
  extension_keys :: "string list"
  ext_FASTA :: "string list"
  ext_GenBank :: "string list"
  ext_SBOL3 :: "(string \<times> string list) list"
  glob :: "string \<Rightarrow> string list"
  parse_fasta :: "string \<Rightarrow> error + fasta_record list"
  parse_genbank :: "string \<Rightarrow> error + genbank_record list"
  read_sbol3 :: "string \<Rightarrow> error + sbol3_document"
  import_genbank :: "string option \<Rightarrow> string \<Rightarrow> error + sbol3_document"
  read_sbol2 :: "string \<Rightarrow> error + sbol3_document"
  read_spec :: "string \<Rightarrow> error + (string \<Rightarrow> part option list option)"
  efetch :: "net_call list \<Rightarrow> string \<Rightarrow> error + genbank_record list"
  pull :: "net_call list \<Rightarrow> string \<Rightarrow> string \<Rightarrow> 'o list \<Rightarrow> error + 'o list"
  urlopen :: "net_call list \<Rightarrow> string \<Rightarrow> nat \<Rightarrow> error + string"

text \<open>
  The state outside the program: the files that hold an SBOL2 document and the text
  files, by path; the network requests made; the duplicate warnings of the inventory
  (one set of keys for each call of \<open>add\<close>); and, of the lines printed, the one that
  reports a rejected download (the progress messages are not modelled).
\<close>

record 'o world =
  sbol2_files :: "string \<rightharpoonup> 'o list"
  text_files :: "string \<rightharpoonup> string"
  net_log :: "net_call list"
  warnings :: "string set list"
  stdout :: "string list"

text \<open>\<^verbatim>\<open>with open(p, 'a') as out: out.write(t)\<close>: the file is created when absent.\<close>

definition append_file :: "string \<Rightarrow> string \<Rightarrow> 'o world \<Rightarrow> 'o world" where
  "append_file p t w =
     w\<lparr>text_files := (text_files w)(p \<mapsto> (case text_files w p of None \<Rightarrow> [] | Some old \<Rightarrow> old) @ t)\<rparr>"

subsection \<open>Loading an import file\<close>

definition fasta_objects :: "(string \<Rightarrow> string) \<Rightarrow> string \<Rightarrow> fasta_record \<Rightarrow> top_level list" where
  "fasta_objects sid ns r =
     (let ident = ns @ ''/'' @ sid (fa_id r);
          seq = Sequence (ident @ ''_sequence'') (fa_name r) (fa_description r) (fa_seq r)
      in [seq, Component ident [ident @ ''_sequence'']])"

text \<open>
  \<^verbatim>\<open>ImportFile.get_sbol3_doc\<close>. The result is the value returned or the exception, the
  instance after the call, and the list of the paths loaded so far, to which every load
  adds the path. No branch assigns the field \<open>doc\<close>.
\<close>

definition get_sbol3_doc ::
  "'o env \<Rightarrow> ImportFile \<Rightarrow> string list \<Rightarrow> (error + sbol3_document) \<times> ImportFile \<times> string list" where
  "get_sbol3_doc env self loads =
     (case doc self of
        Some d \<Rightarrow> (Inr d, self, loads)
      | None \<Rightarrow>
          if file_type self = ''FASTA'' then
            (case parse_fasta env (path self) of
               Inl e \<Rightarrow> (Inl e, self, loads @ [path self])
             | Inr records \<Rightarrow>
                 (case namespace self of
                    None \<Rightarrow> (if records = [] then Inr [] else Inl TypeError,
                              self, loads @ [path self])
                  | Some ns \<Rightarrow>
                      (Inr (concat (map (fasta_objects (string_to_display_id env) ns) records)),
                       self, loads @ [path self])))
          else if file_type self = ''GenBank'' then
            (import_genbank env (namespace self) (path self), self, loads @ [path self])
          else if file_type self = ''SBOL2'' then
            (read_sbol2 env (path self), self, loads @ [path self])
          else if file_type self = ''SBOL3'' then
            (read_sbol3 env (path self), self, loads @ [path self])
          else (Inl (ValueError (''Unknown file type: \"'' @ file_type self @ ''\" for '' @ path self)),
                self, loads))"

subsection \<open>Scanning a package\<close>

text \<open>One call of \<open>add\<close>, its warnings appended to the log.\<close>

definition add_logged ::
  "ImportFile \<Rightarrow> string \<Rightarrow> string list \<Rightarrow> PackageInventory \<times> string set list
     \<Rightarrow> PackageInventory \<times> string set list" where
  "add_logged import_file uri als st =
     (case st of (i, ws) \<Rightarrow> (case add i import_file uri als of (i', warned) \<Rightarrow> (i', ws @ [warned])))"

text \<open>\<^verbatim>\<open>sorted(flatten(glob.glob(os.path.join(package, f'*{ext}')) for ext in exts))\<close>\<close>

definition sorted_glob :: "'o env \<Rightarrow> string \<Rightarrow> string list \<Rightarrow> string list" where
  "sorted_glob env package exts =
     sort (concat (map (\<lambda>ext. glob env (path_join package (''*'' @ ext))) exts))"

text \<open>
  The three loops over files of \<open>package_parts_inventory\<close>. An error of a parser is
  raised where the file is opened.
\<close>

fun scan_fasta ::
  "'o env \<Rightarrow> string \<Rightarrow> string list \<Rightarrow> PackageInventory \<times> string set list
     \<Rightarrow> (error + PackageInventory) \<times> string set list" where
  "scan_fasta env package [] st = (Inr (fst st), snd st)"
| "scan_fasta env package (file # rest) st =
     (let is_igem_cache = (basename file = IGEM_FASTA_CACHE_FILE);
          prefix = (if is_igem_cache then iGEM_SOURCE_PREFIX else package_stem env package)
      in case parse_fasta env file of
           Inl e \<Rightarrow> (Inl e, snd st)
         | Inr records \<Rightarrow>
             (case ImportFile_init (extension_keys env) file ''FASTA'' (Some prefix) of
                Inl e \<Rightarrow> (Inl e, snd st)
              | Inr import_file \<Rightarrow>
                  scan_fasta env package rest
                    (fold (\<lambda>record. add_logged import_file
                             (accession_to_sbol_uri (string_to_display_id env) (fa_id record) prefix) [])
                       records st)))"

fun scan_genbank ::
  "'o env \<Rightarrow> string \<Rightarrow> string list \<Rightarrow> PackageInventory \<times> string set list
     \<Rightarrow> (error + PackageInventory) \<times> string set list" where
  "scan_genbank env package [] st = (Inr (fst st), snd st)"
| "scan_genbank env package (file # rest) st =
     (let is_ncbi_cache = (basename file = GENBANK_CACHE_FILE);
          prefix = (if is_ncbi_cache then NCBI_PREFIX else package_stem env package)
      in case parse_genbank env file of
           Inl e \<Rightarrow> (Inl e, snd st)
         | Inr records \<Rightarrow>
             (case ImportFile_init (extension_keys env) file ''GenBank'' (Some prefix) of
                Inl e \<Rightarrow> (Inl e, snd st)
              | Inr import_file \<Rightarrow>
                  scan_genbank env package rest
                    (fold (\<lambda>record. add_logged import_file
                             (accession_to_sbol_uri (string_to_display_id env) (rec_name record) prefix)
                             [accession_to_sbol_uri (string_to_display_id env) (rec_id record) prefix])
                       records st)))"

fun scan_sbol3 ::
  "'o env \<Rightarrow> string list \<Rightarrow> PackageInventory \<times> string set list
     \<Rightarrow> (error + PackageInventory) \<times> string set list" where
  "scan_sbol3 env [] st = (Inr (fst st), snd st)"
| "scan_sbol3 env (file # rest) st =
     (case read_sbol3 env file of
        Inl e \<Rightarrow> (Inl e, snd st)
      | Inr d \<Rightarrow>
          (case ImportFile_init (extension_keys env) file ''SBOL3'' None of
             Inl e \<Rightarrow> (Inl e, snd st)
           | Inr import_file \<Rightarrow>
               (let ids = map identity (filter is_Component d)
                in scan_sbol3 env rest
                     (fold (\<lambda>i. add_logged import_file i [remap_prefix i]) ids st))))"

text \<open>The outer loop over the items of \<^verbatim>\<open>extensions['SBOL3']\<close>.\<close>

fun scan_sbol3_types ::
  "'o env \<Rightarrow> string \<Rightarrow> (string \<times> string list) list \<Rightarrow> PackageInventory \<times> string set list
     \<Rightarrow> (error + PackageInventory) \<times> string set list" where
  "scan_sbol3_types env package [] st = (Inr (fst st), snd st)"
| "scan_sbol3_types env package ((rdf_type, patterns) # rest) st =
     (case scan_sbol3 env (sorted_glob env package patterns) st of
        (Inl e, ws) \<Rightarrow> (Inl e, ws)
      | (Inr i, ws) \<Rightarrow> scan_sbol3_types env package rest (i, ws))"

text \<open>\<open>package_parts_inventory\<close>: the inventory, or the exception, and the warnings logged.\<close>

definition package_parts_inventory ::
  "'o env \<Rightarrow> string \<Rightarrow> (error + PackageInventory) \<times> string set list" where
  "package_parts_inventory env package =
     (case scan_fasta env package (sorted_glob env package (ext_FASTA env))
             (PackageInventory_init, []) of
        (Inl e, ws) \<Rightarrow> (Inl e, ws)
      | (Inr i1, ws1) \<Rightarrow>
          (case scan_genbank env package (sorted_glob env package (ext_GenBank env)) (i1, ws1) of
             (Inl e, ws) \<Rightarrow> (Inl e, ws)
           | (Inr i2, ws2) \<Rightarrow> scan_sbol3_types env package (ext_SBOL3 env) (i2, ws2)))"

subsection \<open>The retrievers\<close>

text \<open>\<^verbatim>\<open>sep.join(xs)\<close>\<close>

fun join :: "string \<Rightarrow> string list \<Rightarrow> string" where
  "join sep [] = []"
| "join sep [x] = x"
| "join sep (x # y # ys) = x @ sep @ join sep (y # ys)"

text \<open>
  \<open>retrieve_genbank_accessions\<close>: one request for all the identifiers. The handler of the
  \<^verbatim>\<open>try\<close> block names \<^verbatim>\<open>HTTPError\<close>; any other exception leaves the function.
\<close>

definition retrieve_genbank_accessions ::
  "'o env \<Rightarrow> string list \<Rightarrow> string \<Rightarrow> 'o world \<Rightarrow> (error + string list) \<times> 'o world" where
  "retrieve_genbank_accessions env ids package w =
     (let id_string = join '','' (map (\<lambda>i. sbol_uri_to_accession i NCBI_PREFIX) ids);
          w1 = w\<lparr>net_log := net_log w @ [Efetch id_string]\<rparr>
      in case efetch env (net_log w) id_string of
           Inr retrieved \<Rightarrow>
             (let cache_file = path_join package GENBANK_CACHE_FILE;
                  w2 = append_file cache_file (concat (map rec_gb retrieved)) w1
              in (Inr (map (\<lambda>r. accession_to_sbol_uri (string_to_display_id env) (rec_id r) NCBI_PREFIX)
                         retrieved),
                  w2))
         | Inl e \<Rightarrow> (if e = HTTPError then (Inr [], w1) else (Inl e, w1)))"

text \<open>The local variables of the loop of \<open>retrieve_igem_parts\<close>. A pull that raises
  leaves the document as it was.\<close>

record 'o igem_state =
  ig_doc :: "'o list"
  retrieved_fasta :: string
  retrieved_ids :: "string list"
  sbol_count :: nat
  fasta_count :: nat

text \<open>The body of that loop, for the URI \<open>i\<close>.\<close>

definition igem_body ::
  "'o env \<Rightarrow> string \<Rightarrow> 'o igem_state \<Rightarrow> 'o world \<Rightarrow> (error + 'o igem_state) \<times> 'o world" where
  "igem_body env i st w =
     (let accession = sbol_uri_to_accession i iGEM_SOURCE_PREFIX;
          url = SBOL_iGEM_PATTERN accession;
          w1 = w\<lparr>net_log := net_log w @ [Pull ''https://synbiohub.org'' url]\<rparr>
      in case pull env (net_log w) ''https://synbiohub.org'' url (ig_doc st) of
           Inr doc' \<Rightarrow>
             (Inr (st\<lparr>ig_doc := doc', retrieved_ids := retrieved_ids st @ [i],
                      sbol_count := sbol_count st + 1\<rparr>), w1)
         | Inl (SBOLError code) \<Rightarrow>
             if code = SBOL_ERROR_NOT_FOUND then
               (let url' = FASTA_iGEM_PATTERN accession;
                    w2 = w1\<lparr>net_log := net_log w1 @ [Urlopen url' 5]\<rparr>
                in case urlopen env (net_log w1) url' 5 of
                     Inr body \<Rightarrow>
                       (let captured = strip body
                        in if unambiguous_dna_sequence env captured then
                             (Inr (st\<lparr>retrieved_fasta := retrieved_fasta st @
                                        ''> '' @ accession @ [CHR 0x0A] @ captured @ [CHR 0x0A],
                                      retrieved_ids := retrieved_ids st @ [i],
                                      fasta_count := fasta_count st + 1\<rparr>), w2)
                           else
                             (Inr st, w2\<lparr>stdout := stdout w2 @
                                        [''  Retrieved text is not a DNA sequence: '' @ captured]\<rparr>))
                   | Inl e \<Rightarrow> (if isinstance_IOError e then (Inr st, w2) else (Inl e, w2)))
             else (Inl (SBOLError code), w1)
         | Inl e \<Rightarrow> (Inl e, w1))"

fun igem_loop ::
  "'o env \<Rightarrow> string list \<Rightarrow> 'o igem_state \<Rightarrow> 'o world \<Rightarrow> (error + 'o igem_state) \<times> 'o world" where
  "igem_loop env [] st w = (Inr st, w)"
| "igem_loop env (i # ids) st w =
     (case igem_body env i st w of
        (Inl e, w') \<Rightarrow> (Inl e, w')
      | (Inr st', w') \<Rightarrow> igem_loop env ids st' w')"

definition retrieve_igem_parts ::
  "'o env \<Rightarrow> string list \<Rightarrow> string \<Rightarrow> 'o world \<Rightarrow> (error + string list) \<times> 'o world" where
  "retrieve_igem_parts env ids package w =
     (let sbol_cache_file = path_join package IGEM_SBOL2_CACHE_FILE;
          d = (case sbol2_files w sbol_cache_file of Some cached \<Rightarrow> cached | None \<Rightarrow> []);
          st0 = \<lparr>ig_doc = d, retrieved_fasta = [], retrieved_ids = [],
                 sbol_count = 0, fasta_count = 0\<rparr>
      in case igem_loop env ids st0 w of
           (Inl e, w') \<Rightarrow> (Inl e, w')
         | (Inr st, w') \<Rightarrow>
             (let w1 = (if sbol_count st > 0
                        then w'\<lparr>sbol2_files := (sbol2_files w')(sbol_cache_file \<mapsto> ig_doc st)\<rparr>
                        else w');
                  w2 = (if fasta_count st > 0
                        then append_file (path_join package IGEM_FASTA_CACHE_FILE)
                               (retrieved_fasta st) w1
                        else w1)
              in (Inr (retrieved_ids st), w2)))"

text \<open>
  The loop of \<open>retrieve_synbiohub_parts\<close>; its state is the cache document and the list
  of the URIs retrieved. The client of a server is made on first use, which sends nothing.
\<close>

definition synbiohub_body ::
  "'o env \<Rightarrow> string \<Rightarrow> 'o list \<times> string list \<Rightarrow> 'o world
     \<Rightarrow> (error + 'o list \<times> string list) \<times> 'o world" where
  "synbiohub_body env url st w =
     (let server = url_server env url;
          w1 = w\<lparr>net_log := net_log w @ [Pull server url]\<rparr>
      in case pull env (net_log w) server url (fst st) of
           Inr doc' \<Rightarrow> (Inr (doc', snd st @ [url]), w1)
         | Inl (SBOLError code) \<Rightarrow>
             if code = SBOL_ERROR_NOT_FOUND then (Inr st, w1)
             else (Inl (SBOLError code), w1)
         | Inl e \<Rightarrow> (Inl e, w1))"

fun synbiohub_loop ::
  "'o env \<Rightarrow> string list \<Rightarrow> 'o list \<times> string list \<Rightarrow> 'o world
     \<Rightarrow> (error + 'o list \<times> string list) \<times> 'o world" where
  "synbiohub_loop env [] st w = (Inr st, w)"
| "synbiohub_loop env (url # ids) st w =
     (case synbiohub_body env url st w of
        (Inl e, w') \<Rightarrow> (Inl e, w')
      | (Inr st', w') \<Rightarrow> synbiohub_loop env ids st' w')"

definition retrieve_synbiohub_parts ::
  "'o env \<Rightarrow> string list \<Rightarrow> string \<Rightarrow> 'o world \<Rightarrow> (error + string list) \<times> 'o world" where
  "retrieve_synbiohub_parts env ids package w =
     (let sbol_cache_file = path_join package IGEM_SBOL2_CACHE_FILE;
          d = (case sbol2_files w sbol_cache_file of Some cached \<Rightarrow> cached | None \<Rightarrow> [])
      in case synbiohub_loop env ids (d, []) w of
           (Inl e, w') \<Rightarrow> (Inl e, w')
         | (Inr (d', ids'), w') \<Rightarrow>
             (if length ids' > 0
              then (Inr ids', w'\<lparr>sbol2_files := (sbol2_files w')(sbol_cache_file \<mapsto> d')\<rparr>)
              else (Inr ids', w')))"

subsection \<open>The source router\<close>

type_synonym 'o retriever =
  "'o env \<Rightarrow> string list \<Rightarrow> string \<Rightarrow> 'o world \<Rightarrow> (error + string list) \<times> 'o world"

text \<open>The dictionary \<^verbatim>\<open>source_list\<close>, in the order in which its items are written.\<close>

definition source_list :: "(string \<times> 'o retriever) list" where
  "source_list =
     [(NCBI_PREFIX, retrieve_genbank_accessions),
      (''https://synbiohub.org/public/igem/'', retrieve_igem_parts),
      (''http://parts.igem.org/'', retrieve_igem_parts),
      (''https://synbiohub'', retrieve_synbiohub_parts)]"

text \<open>The loop of \<open>retrieve_parts\<close> over the items of a table; its variables are \<open>ids\<close>
  and \<open>collected\<close>.\<close>

fun retrieve_loop ::
  "'o env \<Rightarrow> (string \<times> 'o retriever) list \<Rightarrow> string list \<Rightarrow> string \<Rightarrow> string list \<Rightarrow> 'o world
     \<Rightarrow> (error + string list) \<times> 'o world" where
  "retrieve_loop env [] ids package collected w = (Inr collected, w)"
| "retrieve_loop env ((prefix, retriever) # rest) ids package collected w =
     (let matches = filter (\<lambda>i. startswith i prefix) ids;
          ids' = filter (\<lambda>i. i \<notin> set matches) ids
      in if length matches > 0 then
           (case retriever env matches package w of
              (Inl e, w') \<Rightarrow> (Inl e, w')
            | (Inr successes, w') \<Rightarrow>
                retrieve_loop env rest ids' package (collected @ successes) w')
         else retrieve_loop env rest ids' package collected w)"

definition retrieve_parts ::
  "'o env \<Rightarrow> string list \<Rightarrow> string \<Rightarrow> 'o world \<Rightarrow> (error + string list) \<times> 'o world" where
  "retrieve_parts env ids package w = retrieve_loop env source_list ids package [] w"

subsection \<open>The reconciler\<close>

text \<open>
  \<open>import_parts\<close>. A collection that \<^verbatim>\<open>find\<close> does not find, or a member that \<^verbatim>\<open>lookup\<close>
  does not resolve, is \<^verbatim>\<open>None\<close>, and reading an attribute of it raises
  \<^verbatim>\<open>AttributeError\<close>. The sets that are only counted or printed are left out.
\<close>

definition import_parts ::
  "'o env \<Rightarrow> string \<Rightarrow> 'o world \<Rightarrow> (error + string list) \<times> 'o world" where
  "import_parts env package w =
     (case read_spec env (path_join (path_join package (EXPORT_DIRECTORY env)) (SBOL_EXPORT_NAME env)) of
        Inl e \<Rightarrow> (Inl e, w)
      | Inr package_spec \<Rightarrow>
          (case package_spec BASIC_PARTS_COLLECTION of
             None \<Rightarrow> (Inl AttributeError, w)
           | Some package_parts \<Rightarrow>
               (case package_parts_inventory env package of
                  (Inl e, ws) \<Rightarrow> (Inl e, w\<lparr>warnings := warnings w @ ws\<rparr>)
                | (Inr inventory, ws) \<Rightarrow>
                    (let w1 = w\<lparr>warnings := warnings w @ ws\<rparr>
                     in if None \<in> set package_parts then (Inl AttributeError, w1)
                        else
                          (let package_no_sequence_ids =
                                 {part_identity p | p. Some p \<in> set package_parts \<and> part_sequences p = []};
                               inventory_part_ids_and_aliases = dom (aliases inventory);
                               missing_sequences =
                                 package_no_sequence_ids - inventory_part_ids_and_aliases
                           in if missing_sequences = {} then (Inr [], w1)
                              else
                                (let download_list = sorted_list_of_set missing_sequences
                                 in retrieve_parts env download_list package w1))))))"

subsection \<open>The collator\<close>

text \<open>
  An RDF graph is a set of statements; the model keeps it as a list without repetition,
  in which \<^verbatim>\<open>g.add\<close> inserts a statement that is absent and \<^verbatim>\<open>g.remove\<close> deletes it.
\<close>

datatype node = URIRef string | Literal string | BNode string

type_synonym triple = "node \<times> node \<times> node"

definition graph_add :: "triple \<Rightarrow> triple list \<Rightarrow> triple list" where
  "graph_add t g = List.insert t g"

definition graph_remove :: "triple \<Rightarrow> triple list \<Rightarrow> triple list" where
  "graph_remove t g = removeAll t g"

text \<open>\<^verbatim>\<open>g.triples((None, None, o))\<close>: the statements with the object \<open>o\<close>.\<close>

definition triples_with_object :: "node \<Rightarrow> triple list \<Rightarrow> triple list" where
  "triples_with_object ob g = filter (\<lambda>t. snd (snd t) = ob) g"

text \<open>The body of the inner loop, for one statement, and the inner loop, which runs
  over the statements that have the old identity as object when it starts.\<close>

definition rewrite_triple :: "string \<Rightarrow> triple \<Rightarrow> triple list \<Rightarrow> triple list" where
  "rewrite_triple new_identity t g =
     (case t of (s, p, ob) \<Rightarrow> graph_remove (s, p, ob) (graph_add (s, p, URIRef new_identity) g))"

definition rewrite_identity :: "string \<times> string \<Rightarrow> triple list \<Rightarrow> triple list" where
  "rewrite_identity entry g =
     (case entry of (old_identity, new_identity) \<Rightarrow>
        fold (rewrite_triple new_identity) (triples_with_object (URIRef old_identity) g) g)"

definition apply_rewriting_plan :: "(string \<times> string) list \<Rightarrow> triple list \<Rightarrow> triple list" where
  "apply_rewriting_plan plan g = fold rewrite_identity plan g"

text \<open>
  The rewriting plan, in the order of the removed objects (the identities of the
  objects of a document are distinct).
\<close>

definition rewriting_plan :: "PackageInventory \<Rightarrow> top_level list \<Rightarrow> (string \<times> string) list" where
  "rewriting_plan inventory to_remove =
     map (\<lambda>ob. (identity ob, the (aliases inventory (identity ob))))
       (filter (\<lambda>ob. the (aliases inventory (identity ob)) \<noteq> identity ob) to_remove)"

text \<open>Copying the objects of an imported document whose identity is not in the target.\<close>

fun copy_objects :: "top_level list \<Rightarrow> top_level list \<Rightarrow> top_level list" where
  "copy_objects [] d = d"
| "copy_objects (ob # obs) d =
     (if identity ob \<in> set (map identity d) then copy_objects obs d
      else copy_objects obs (d @ [ob]))"

fun import_files ::
  "'o env \<Rightarrow> ImportFile list \<Rightarrow> top_level list \<Rightarrow> error + top_level list" where
  "import_files env [] d = Inr d"
| "import_files env (f # fs) d =
     (case fst (get_sbol3_doc env f []) of
        Inl e \<Rightarrow> Inl e
      | Inr import_doc \<Rightarrow> import_files env fs (copy_objects import_doc d))"

text \<open>
  \<open>collate_package\<close> up to the rewritten graph, which it then serializes, sorts by
  line and writes. \<open>fs\<close> is the order in which the loop meets the files of the
  inventory, a Python set: any list of them without repetition. \<open>graph_of\<close> is
  \<^verbatim>\<open>doc.graph()\<close>. The warnings of the scan are those of \<open>package_parts_inventory\<close>.
\<close>

definition collate_graph ::
  "'o env \<Rightarrow> (top_level list \<Rightarrow> triple list) \<Rightarrow> string \<Rightarrow> ImportFile list
     \<Rightarrow> error + triple list" where
  "collate_graph env graph_of package fs =
     (case read_sbol3 env (path_join (path_join package (EXPORT_DIRECTORY env)) (SBOL_EXPORT_NAME env)) of
        Inl e \<Rightarrow> Inl e
      | Inr d \<Rightarrow>
          (case fst (package_parts_inventory env package) of
             Inl e \<Rightarrow> Inl e
           | Inr inventory \<Rightarrow>
               (let to_remove = filter (\<lambda>ob. identity ob \<in> dom (aliases inventory)) d;
                    d1 = fold remove1 to_remove d
                in case import_files env fs d1 of
                     Inl e \<Rightarrow> Inl e
                   | Inr d2 \<Rightarrow>
                       Inr (apply_rewriting_plan (rewriting_plan inventory to_remove)
                              (graph_of d2)))))"

text \<open>
  The substitution that the specification describes: every object term that is an old
  identity of the plan becomes the new identity; subject and predicate stay.
\<close>

fun rewrite_node :: "(string \<times> string) list \<Rightarrow> node \<Rightarrow> node" where
  "rewrite_node plan (URIRef u) = (case map_of plan u of Some new \<Rightarrow> URIRef new | None \<Rightarrow> URIRef u)"
| "rewrite_node plan n = n"

definition substitute_object :: "(string \<times> string) list \<Rightarrow> triple \<Rightarrow> triple" where
  "substitute_object plan t = (case t of (s, p, ob) \<Rightarrow> (s, p, rewrite_node plan ob))"

subsection \<open>Routing, as the specification words it\<close>

text \<open>
  The first prefix of a list that a URI starts with; the URIs of a list that are routed
  to a prefix of a table; and the run of a list of calls, each one a retriever with the
  URIs it is given: a call with no URI is skipped, the lists returned are concatenated,
  and an exception ends the run.
\<close>

definition first_match :: "string list \<Rightarrow> string \<Rightarrow> string option" where
  "first_match prefixes i = find (\<lambda>p. startswith i p) prefixes"

definition routed_to :: "string list \<Rightarrow> string list \<Rightarrow> string \<Rightarrow> string list" where
  "routed_to prefixes ids p = filter (\<lambda>i. first_match prefixes i = Some p) ids"

fun run_retrievers ::
  "'o env \<Rightarrow> ('o retriever \<times> string list) list \<Rightarrow> string \<Rightarrow> string list \<Rightarrow> 'o world
     \<Rightarrow> (error + string list) \<times> 'o world" where
  "run_retrievers env [] package collected w = (Inr collected, w)"
| "run_retrievers env ((retriever, uris) # calls) package collected w =
     (if uris = [] then run_retrievers env calls package collected w
      else (case retriever env uris package w of
              (Inl e, w') \<Rightarrow> (Inl e, w')
            | (Inr successes, w') \<Rightarrow>
                run_retrievers env calls package (collected @ successes) w'))"

subsection \<open>A sample environment\<close>

text \<open>
  Collaborators for closed examples. The package directory \<open>pkg\<close> holds one FASTA file,
  the cache of the iGEM downloads, with the record \<open>K200\<close>. Its specification lists three
  basic parts: one with a sequence, one that the cache holds, one that is missing; every
  SBOL3 file read holds that specification. The
  SynBioHub servers know the part \<open>K100\<close>, answer "not found" for \<open>K404\<close> and \<open>K405\<close>
  and fail with another code for any other URI; the registry has a sequence for \<open>K404\<close> and
  answers \<open>K405\<close> with a page of HTML. NCBI knows the accession \<open>AB1.1\<close>.
\<close>

definition example_env :: "string env" where
  "example_env =
     \<lparr>string_to_display_id = dot_sanitizer,
      unambiguous_dna_sequence = (\<lambda>s. s \<noteq> [] \<and> set s \<subseteq> set ''acgtACGT''),
      url_server = (\<lambda>url. ''https://synbiohub.org''),
      package_stem = (\<lambda>package. ''https://example.org/pkg''),
      EXPORT_DIRECTORY = ''views'',
      SBOL_EXPORT_NAME = ''package_specification.nt'',
      extension_keys = [''FASTA'', ''GenBank'', ''SBOL2'', ''SBOL3''],
      ext_FASTA = [''.fasta''],
      ext_GenBank = [''.gb''],
      ext_SBOL3 = [(''nt'', [''.nt''])],
      glob = (\<lambda>pattern. if pattern = ''pkg/*.fasta'' then [''pkg/iGEM_raw_imports.fasta''] else []),
      parse_fasta = (\<lambda>file. Inr [\<lparr>fa_id = ''K200'', fa_name = ''K200'', fa_description = ''K200'',
                                   fa_seq = ''atgc''\<rparr>]),
      parse_genbank = (\<lambda>file. Inr []),
      read_sbol3 = (\<lambda>file. Inr
          [Collection ''https://example.org/pkg/BasicParts''
             [''https://example.org/pkg/P1'', ''http://parts.igem.org/K200'',
              ''http://parts.igem.org/K404''],
           Component ''https://example.org/pkg/P1'' [''https://example.org/pkg/P1_sequence''],
           Component ''http://parts.igem.org/K200'' [],
           Component ''http://parts.igem.org/K404'' []]),
      import_genbank = (\<lambda>ns file. Inr []),
      read_sbol2 = (\<lambda>file. Inr []),
      read_spec = (\<lambda>file. Inr (\<lambda>name.
          if name = ''BasicParts''
          then Some [Some \<lparr>part_identity = ''https://example.org/pkg/P1'', part_sequences = [''s1'']\<rparr>,
                     Some \<lparr>part_identity = ''http://parts.igem.org/K200'', part_sequences = []\<rparr>,
                     Some \<lparr>part_identity = ''http://parts.igem.org/K404'', part_sequences = []\<rparr>]
          else None)),
      efetch = (\<lambda>history ids. if ids = ''AB1.1''
                  then Inr [\<lparr>rec_id = ''AB1.1'', rec_name = ''AB1'', rec_gb = ''LOCUS AB1''\<rparr>]
                  else Inl HTTPError),
      pull = (\<lambda>history server url d.
                if url = ''https://synbiohub.org/public/igem/BBa_K100'' then Inr (d @ [url])
                else if url = ''https://synbiohub.org/public/igem/BBa_K404''
                      \<or> url = ''https://synbiohub.org/public/igem/BBa_K405''
                then Inl (SBOLError SBOL_ERROR_NOT_FOUND)
                else Inl (SBOLError (SBOL_ERROR_OTHER 1))),
      urlopen = (\<lambda>history url timeout.
                if url = ''http://parts.igem.org/cgi/partsdb/composite_edit/putseq.cgi?part=K404''
                then Inr ''atgc '' else Inr ''<html>'')\<rparr>"

definition empty_world :: "string world" where
  "empty_world = \<lparr>sbol2_files = Map.empty, text_files = Map.empty, net_log = [],
                   warnings = [], stdout = []\<rparr>"

text \<open>The import files of two caches of the package \<open>pkg\<close>.\<close>

definition example_fasta_file :: ImportFile where
  "example_fasta_file =
     \<lparr>path = ''pkg/iGEM_raw_imports.fasta'', file_type = ''FASTA'',
      namespace = Some ''http://parts.igem.org'', doc = None\<rparr>"

definition example_sbol3_file :: ImportFile where
  "example_sbol3_file =
     \<lparr>path = ''pkg/iGEM_SBOL3_imports.nt'', file_type = ''SBOL3'', namespace = None, doc = None\<rparr>"

text \<open>The same package when its specification does not list the missing part.\<close>

definition example_env_satisfied :: "string env" where
  "example_env_satisfied =
     example_env
       \<lparr>read_spec := (\<lambda>file. Inr (\<lambda>name.
          if name = ''BasicParts''
          then Some [Some \<lparr>part_identity = ''https://example.org/pkg/P1'', part_sequences = [''s1'']\<rparr>,
                     Some \<lparr>part_identity = ''http://parts.igem.org/K200'', part_sequences = []\<rparr>]
          else None))\<rparr>"

text \<open>
  The same package when the second member of the collection does not resolve, and when
  its only part has a sequence and the FASTA file cannot be read.
\<close>

definition example_env_unresolved :: "string env" where
  "example_env_unresolved =
     example_env
       \<lparr>read_spec := (\<lambda>file. Inr (\<lambda>name.
          if name = ''BasicParts''
          then Some [Some \<lparr>part_identity = ''https://example.org/pkg/P1'', part_sequences = [''s1'']\<rparr>,
                     None]
          else None))\<rparr>"

definition example_env_unreadable :: "string env" where
  "example_env_unreadable =
     example_env
       \<lparr>read_spec := (\<lambda>file. Inr (\<lambda>name.
          if name = ''BasicParts''
          then Some [Some \<lparr>part_identity = ''https://example.org/pkg/P1'', part_sequences = [''s1'']\<rparr>]
          else None)),
        parse_fasta := (\<lambda>file. Inl IOError)\<rparr>"

text \<open>
  The same package with a GenBank cache instead: the record named \<open>AB1\<close> with the
  identifier \<open>AB1.1\<close>, which the specification lists under the URI of the identifier.
\<close>

definition example_genbank_file :: ImportFile where
  "example_genbank_file =
     \<lparr>path = ''pkg/GenBank_imports.gb'', file_type = ''GenBank'',
      namespace = Some ''https://www.ncbi.nlm.nih.gov/nuccore'', doc = None\<rparr>"

definition example_env_genbank :: "string env" where
  "example_env_genbank =
     example_env
       \<lparr>glob := (\<lambda>pattern. if pattern = ''pkg/*.gb'' then [''pkg/GenBank_imports.gb''] else []),
        parse_genbank := (\<lambda>file. Inr [\<lparr>rec_id = ''AB1.1'', rec_name = ''AB1'', rec_gb = ''LOCUS AB1''\<rparr>]),
        read_sbol3 := (\<lambda>file. Inr
          [Collection ''https://example.org/pkg/BasicParts''
             [''https://www.ncbi.nlm.nih.gov/nuccore/AB1_1''],
           Component ''https://www.ncbi.nlm.nih.gov/nuccore/AB1_1'' []]),
        import_genbank := (\<lambda>ns file. Inr
          [Component ''https://www.ncbi.nlm.nih.gov/nuccore/AB1''
             [''https://www.ncbi.nlm.nih.gov/nuccore/AB1_sequence''],
           Sequence ''https://www.ncbi.nlm.nih.gov/nuccore/AB1_sequence'' ''AB1'' ''AB1'' ''atgc''])\<rparr>"

text \<open>
  A sample of \<^verbatim>\<open>doc.graph()\<close>: a statement for the elements of a sequence, for each
  sequence of a component and for each member of a collection.
\<close>

fun example_triples :: "top_level \<Rightarrow> triple list" where
  "example_triples (Sequence i n d e) =
     [(URIRef i, URIRef ''http://sbols.org/v3#elements'', Literal e)]"
| "example_triples (Component i seqs) =
     map (\<lambda>s. (URIRef i, URIRef ''http://sbols.org/v3#hasSequence'', URIRef s)) seqs"
| "example_triples (Collection i members) =
     map (\<lambda>m. (URIRef i, URIRef ''http://sbols.org/v3#member'', URIRef m)) members"
| "example_triples (Top_level i) = []"

definition example_graph_of :: "top_level list \<Rightarrow> triple list" where
  "example_graph_of d = remdups (concat (map example_triples d))"


section \<open>Properties\<close>

subsection \<open>The codec\<close>

lemma startswith_append: "startswith (p @ s) p"
  by (simp add: startswith_def)

lemma removeprefix_append: "removeprefix (p @ s) p = s"
  by (simp add: removeprefix_def startswith_append)

lemma roundtrip_normalized:
  "sbol_uri_to_accession (accession_to_sbol_uri sid a p) (if endswith p ''/'' then p else p @ ''/'')
     = replace_char CHR ''_'' CHR ''.'' (sid a)"
proof (cases "endswith p ''/''")
  case True
  then show ?thesis
    by (simp add: sbol_uri_to_accession_def accession_to_sbol_uri_def removeprefix_append)
next
  case False
  have "removeprefix ((p @ ''/'') @ sid a) (p @ ''/'') = sid a"
    by (rule removeprefix_append)
  with False show ?thesis
    by (simp add: sbol_uri_to_accession_def accession_to_sbol_uri_def)
qed

lemma endswith_NCBI: "endswith NCBI_PREFIX ''/''"
  by (simp add: endswith_def NCBI_PREFIX_def)

text \<open>
  Claim C3 does not hold of the code. With the default NCBI prefix, whatever the
  sanitizer, the URI of an accession converts back to the sanitized accession with every
  underscore replaced by a dot: the result holds no underscore, so an accession that
  holds one (those of RefSeq do, as \<open>NM_001.2\<close>) does not come back, although the
  sanitizer leaves its underscores in place and the URI is well formed.
\<close>

theorem codec_roundtrip_loses_underscores:
  "sbol_uri_to_accession (accession_to_sbol_uri sid a NCBI_PREFIX) NCBI_PREFIX
     = replace_char CHR ''_'' CHR ''.'' (sid a)
   \<and> CHR ''_'' \<notin> set (sbol_uri_to_accession (accession_to_sbol_uri sid a NCBI_PREFIX) NCBI_PREFIX)
   \<and> accession_to_sbol_uri dot_sanitizer ''NM_001.2'' NCBI_PREFIX
       = ''https://www.ncbi.nlm.nih.gov/nuccore/NM_001_2''
   \<and> sbol_uri_to_accession ''https://www.ncbi.nlm.nih.gov/nuccore/NM_001_2'' NCBI_PREFIX
       = ''NM.001.2''"
proof (intro conjI)
  show r: "sbol_uri_to_accession (accession_to_sbol_uri sid a NCBI_PREFIX) NCBI_PREFIX
     = replace_char CHR ''_'' CHR ''.'' (sid a)"
    using roundtrip_normalized [of sid a NCBI_PREFIX] by (simp add: endswith_NCBI)
  show "CHR ''_'' \<notin> set (sbol_uri_to_accession (accession_to_sbol_uri sid a NCBI_PREFIX) NCBI_PREFIX)"
    unfolding r by (auto simp: replace_char_def)
  show "accession_to_sbol_uri dot_sanitizer ''NM_001.2'' NCBI_PREFIX
       = ''https://www.ncbi.nlm.nih.gov/nuccore/NM_001_2''"
    by (simp add: accession_to_sbol_uri_def endswith_def NCBI_PREFIX_def dot_sanitizer_def
        replace_char_def)
  show "sbol_uri_to_accession ''https://www.ncbi.nlm.nih.gov/nuccore/NM_001_2'' NCBI_PREFIX
       = ''NM.001.2''"
    by (simp add: sbol_uri_to_accession_def removeprefix_def startswith_def NCBI_PREFIX_def
        replace_char_def)
qed

text \<open>
  An accession without underscores does come back when the prefix ends with the
  separator. With a prefix that does not, \<open>accession_to_sbol_uri\<close> adds the separator
  and \<open>sbol_uri_to_accession\<close>, given the same prefix, leaves it in front of the
  accession.
\<close>

lemma codec_roundtrip_default_prefix:
  "sbol_uri_to_accession (accession_to_sbol_uri dot_sanitizer ''AB1.1'' NCBI_PREFIX) NCBI_PREFIX
     = ''AB1.1''"
  using roundtrip_normalized [of dot_sanitizer "''AB1.1''" NCBI_PREFIX]
  by (simp add: endswith_NCBI dot_sanitizer_def replace_char_def)

lemma codec_roundtrip_prefix_without_separator:
  "sbol_uri_to_accession
     (accession_to_sbol_uri dot_sanitizer ''AB1.1'' ''https://example.org/pkg'')
     ''https://example.org/pkg'' = ''/AB1.1''"
  by (simp add: sbol_uri_to_accession_def accession_to_sbol_uri_def endswith_def
      removeprefix_def startswith_def replace_char_def dot_sanitizer_def)

subsection \<open>The inventory\<close>

text \<open>The loop of \<open>add\<close> binds every key to the URI and warns about the keys that the
  alias map held: the order in which it meets the keys does not matter.\<close>

lemma fold_add_key:
  "distinct keys \<Longrightarrow>
   fold (add_key uri) keys (al, w) =
     ((\<lambda>k. if k \<in> set keys then Some uri else al k), w \<union> (set keys \<inter> dom al))"
proof (induction keys arbitrary: al w)
  case Nil
  then show ?case by simp
next
  case (Cons k ks)
  have "fold (add_key uri) (k # ks) (al, w) =
        fold (add_key uri) ks (al(k \<mapsto> uri), if k \<in> dom al then insert k w else w)"
    by (simp add: add_key_def)
  also have "\<dots> = ((\<lambda>x. if x \<in> set ks then Some uri else (al(k \<mapsto> uri)) x),
                   (if k \<in> dom al then insert k w else w) \<union> (set ks \<inter> dom (al(k \<mapsto> uri))))"
    using Cons by simp
  also have "\<dots> = ((\<lambda>x. if x \<in> set (k # ks) then Some uri else al x),
                   w \<union> (set (k # ks) \<inter> dom al))"
    using Cons.prems by (auto simp: fun_eq_iff)
  finally show ?case .
qed

lemma add_eq:
  "add i f uri als =
     (i\<lparr>files := insert f (files i), locations := (locations i)(uri \<mapsto> f),
        aliases := (\<lambda>k. if k \<in> insert uri (set als) then Some uri else aliases i k)\<rparr>,
      insert uri (set als) \<inter> dom (aliases i))"
  by (simp add: add_def Let_def fold_add_key)

text \<open>
  Claim C4, as amended. When \<open>add\<close> is given a key (the URI or one of the aliases) that
  the alias map already holds, with whatever URI, a warning is logged for the key and
  the key is bound to the URI of this call: the last write for an alias wins.
\<close>

theorem add_last_write_wins:
  assumes "k \<in> insert uri (set als)" and "aliases i k = Some old"
  shows "aliases (fst (add i f uri als)) k = Some uri \<and> k \<in> snd (add i f uri als)"
  using assms by (auto simp: add_eq)

text \<open>
  The cache of raw iGEM sequences registers a part under its registry URI; an SBOL3
  file then registers the registry URI as an alias of the SynBioHub URI.
\<close>

theorem add_last_write_wins_witness:
  "aliases (fst (add PackageInventory_init example_fasta_file ''http://parts.igem.org/K1'' [])) ''http://parts.igem.org/K1''
     = Some ''http://parts.igem.org/K1''
   \<and> aliases (fst (add (fst (add PackageInventory_init example_fasta_file ''http://parts.igem.org/K1'' [])) example_sbol3_file
        ''https://synbiohub.org/public/igem/BBa_K1'' [''http://parts.igem.org/K1'']))
        ''http://parts.igem.org/K1'' = Some ''https://synbiohub.org/public/igem/BBa_K1''
   \<and> ''http://parts.igem.org/K1'' \<in> snd (add (fst (add PackageInventory_init example_fasta_file ''http://parts.igem.org/K1'' [])) example_sbol3_file
        ''https://synbiohub.org/public/igem/BBa_K1'' [''http://parts.igem.org/K1''])"
proof -
  have a: "aliases (fst (add PackageInventory_init example_fasta_file ''http://parts.igem.org/K1'' []))
             ''http://parts.igem.org/K1'' = Some ''http://parts.igem.org/K1''"
    by (simp add: add_eq)
  have b: "''http://parts.igem.org/K1'' \<in>
             insert ''https://synbiohub.org/public/igem/BBa_K1'' (set [''http://parts.igem.org/K1''])"
    by simp
  show ?thesis
    using a add_last_write_wins [OF b a, of example_sbol3_file] by simp
qed

text \<open>After these two calls the alias no longer resolves to the URI written first.\<close>

theorem add_first_write_counterexample:
  "aliases (fst (add (fst (add PackageInventory_init example_fasta_file ''http://parts.igem.org/K1'' [])) example_sbol3_file
        ''https://synbiohub.org/public/igem/BBa_K1'' [''http://parts.igem.org/K1'']))
        ''http://parts.igem.org/K1'' \<noteq> Some ''http://parts.igem.org/K1''"
  by (simp add: add_eq)

lemma add_closed:
  assumes "ran (aliases i) \<subseteq> dom (locations i)"
  shows "ran (aliases (fst (add i f uri als))) \<subseteq> dom (locations (fst (add i f uri als)))"
proof
  fix v
  assume "v \<in> ran (aliases (fst (add i f uri als)))"
  then obtain k where k: "aliases (fst (add i f uri als)) k = Some v"
    by (auto simp: ran_def)
  show "v \<in> dom (locations (fst (add i f uri als)))"
  proof (cases "k \<in> insert uri (set als)")
    case True
    with k have "v = uri" by (simp add: add_eq)
    then show ?thesis by (simp add: add_eq)
  next
    case False
    with k have "aliases i k = Some v" by (simp add: add_eq)
    then have "v \<in> ran (aliases i)" by (auto simp: ran_def)
    with assms have "v \<in> dom (locations i)" by blast
    then show ?thesis by (auto simp: add_eq)
  qed
qed

lemma reachable_closed:
  "inventory_reachable i \<Longrightarrow> ran (aliases i) \<subseteq> dom (locations i)"
proof (induction rule: inventory_reachable.induct)
  case start
  show ?case by (simp add: PackageInventory_init_def)
next
  case (step i import_file uri als)
  from step.IH show ?case by (rule add_closed)
qed

lemma add_logged_fst: "fst (add_logged f uri als st) = fst (add (fst st) f uri als)"
  by (cases st) (simp add: add_logged_def split: prod.splits)

lemma add_logged_reachable:
  "inventory_reachable (fst st) \<Longrightarrow> inventory_reachable (fst (add_logged f uri als st))"
  by (simp add: add_logged_fst inventory_reachable.step)

lemma fold_add_logged_reachable:
  "inventory_reachable (fst st) \<Longrightarrow>
   inventory_reachable (fst (fold (\<lambda>r. add_logged f (u r) (a r)) rs st))"
  by (induction rs arbitrary: st) (simp_all add: add_logged_reachable)

lemma scan_fasta_reachable:
  "inventory_reachable (fst st) \<Longrightarrow> scan_fasta env package fs st = (Inr i, ws) \<Longrightarrow>
   inventory_reachable i"
proof (induction fs arbitrary: st)
  case Nil
  then show ?case by simp
next
  case (Cons fl rest)
  from Cons.prems(2) show ?case
    by (auto simp: Let_def split: sum.splits
        intro: Cons.IH [OF fold_add_logged_reachable [OF Cons.prems(1)]])
qed

lemma scan_genbank_reachable:
  "inventory_reachable (fst st) \<Longrightarrow> scan_genbank env package fs st = (Inr i, ws) \<Longrightarrow>
   inventory_reachable i"
proof (induction fs arbitrary: st)
  case Nil
  then show ?case by simp
next
  case (Cons fl rest)
  from Cons.prems(2) show ?case
    by (auto simp: Let_def split: sum.splits
        intro: Cons.IH [OF fold_add_logged_reachable [OF Cons.prems(1)]])
qed

lemma scan_sbol3_reachable:
  "inventory_reachable (fst st) \<Longrightarrow> scan_sbol3 env fs st = (Inr i, ws) \<Longrightarrow>
   inventory_reachable i"
proof (induction fs arbitrary: st)
  case Nil
  then show ?case by simp
next
  case (Cons fl rest)
  from Cons.prems(2) show ?case
    by (auto simp: Let_def split: sum.splits
        intro: Cons.IH [OF fold_add_logged_reachable [OF Cons.prems(1)]])
qed

lemma scan_sbol3_types_reachable:
  "inventory_reachable (fst st) \<Longrightarrow> scan_sbol3_types env package ts st = (Inr i, ws) \<Longrightarrow>
   inventory_reachable i"
proof (induction ts arbitrary: st)
  case Nil
  then show ?case by simp
next
  case (Cons t rest)
  obtain rdf_type patterns where t: "t = (rdf_type, patterns)" by (cases t)
  show ?case
  proof (cases "scan_sbol3 env (sorted_glob env package patterns) st")
    case (Pair r ws')
    show ?thesis
    proof (cases r)
      case (Inl e)
      with Cons.prems(2) t Pair show ?thesis by simp
    next
      case (Inr j)
      with Pair Cons.prems(1) have "inventory_reachable j"
        by (auto dest: scan_sbol3_reachable)
      moreover from Cons.prems(2) t Pair Inr
      have "scan_sbol3_types env package rest (j, ws') = (Inr i, ws)" by simp
      ultimately show ?thesis using Cons.IH [of "(j, ws')"] by simp
    qed
  qed
qed

lemma package_parts_inventory_reachable:
  assumes "package_parts_inventory env package = (Inr i, ws)"
  shows "inventory_reachable i"
proof -
  obtain r1 ws1 where s1: "scan_fasta env package (sorted_glob env package (ext_FASTA env))
             (PackageInventory_init, []) = (r1, ws1)" by (cases "scan_fasta env package (sorted_glob env package (ext_FASTA env))
             (PackageInventory_init, [])")
  show ?thesis
  proof (cases r1)
    case (Inl e)
    with assms s1 show ?thesis by (simp add: package_parts_inventory_def)
  next
    case (Inr i1)
    with s1 have r1: "inventory_reachable i1"
      using scan_fasta_reachable [of "(PackageInventory_init, [])" env package _ i1 ws1]
      by (simp add: inventory_reachable.start)
    obtain r2 ws2 where s2: "scan_genbank env package (sorted_glob env package (ext_GenBank env))
             (i1, ws1) = (r2, ws2)" by (cases "scan_genbank env package (sorted_glob env package (ext_GenBank env))
             (i1, ws1)")
    show ?thesis
    proof (cases r2)
      case (Inl e)
      with assms s1 s2 Inr show ?thesis by (simp add: package_parts_inventory_def)
    next
      case i2: (Inr i2)
      with s2 r1 have r2: "inventory_reachable i2"
        using scan_genbank_reachable [of "(i1, ws1)" env package _ i2 ws2] by simp
      from assms s1 s2 Inr i2
      have "scan_sbol3_types env package (ext_SBOL3 env) (i2, ws2) = (Inr i, ws)"
        by (simp add: package_parts_inventory_def)
      with r2 show ?thesis
        using scan_sbol3_types_reachable [of "(i2, ws2)" env package _ i ws] by simp
    qed
  qed
qed

text \<open>
  Claim C9. In every inventory built by a sequence of \<open>add\<close> calls from the empty one,
  and so in every inventory that \<open>package_parts_inventory\<close> returns, each value of the
  alias map is a key of the location map.
\<close>

theorem aliases_closed_over_locations:
  "(inventory_reachable i \<longrightarrow> ran (aliases i) \<subseteq> dom (locations i))
   \<and> (package_parts_inventory env package = (Inr j, ws) \<longrightarrow> ran (aliases j) \<subseteq> dom (locations j))"
  using reachable_closed package_parts_inventory_reachable by blast

text \<open>The inventory of the sample package.\<close>

lemma example_inventory:
  "package_parts_inventory example_env ''pkg'' =
     (Inr \<lparr>files = {example_fasta_file},
           locations = [''http://parts.igem.org/K200'' \<mapsto> example_fasta_file],
           aliases = [''http://parts.igem.org/K200'' \<mapsto> ''http://parts.igem.org/K200'']\<rparr>,
      [{}])"
  by (simp add: package_parts_inventory_def sorted_glob_def example_env_def path_join_def
      endswith_def basename_def IGEM_FASTA_CACHE_FILE_def iGEM_SOURCE_PREFIX_def
      ImportFile_init_def removesuffix_def add_logged_def add_eq PackageInventory_init_def
      accession_to_sbol_uri_def dot_sanitizer_def replace_char_def example_fasta_file_def
      fun_eq_iff Let_def)

theorem aliases_closed_over_locations_witness:
  "inventory_reachable (fst (add PackageInventory_init example_fasta_file
        ''http://parts.igem.org/K200'' []))
   \<and> ran (aliases (fst (add PackageInventory_init example_fasta_file
        ''http://parts.igem.org/K200'' [])))
       \<subseteq> dom (locations (fst (add PackageInventory_init example_fasta_file
        ''http://parts.igem.org/K200'' [])))
   \<and> package_parts_inventory example_env ''pkg'' =
       (Inr \<lparr>files = {example_fasta_file},
             locations = [''http://parts.igem.org/K200'' \<mapsto> example_fasta_file],
             aliases = [''http://parts.igem.org/K200'' \<mapsto> ''http://parts.igem.org/K200'']\<rparr>,
        [{}])
   \<and> ran [''http://parts.igem.org/K200'' \<mapsto> ''http://parts.igem.org/K200'']
       \<subseteq> dom [''http://parts.igem.org/K200'' \<mapsto> example_fasta_file]"
proof -
  have r: "inventory_reachable (fst (add PackageInventory_init example_fasta_file
        ''http://parts.igem.org/K200'' []))"
    by (rule inventory_reachable.step) (rule inventory_reachable.start)
  show ?thesis
    using r example_inventory
      aliases_closed_over_locations [of "fst (add PackageInventory_init example_fasta_file
        ''http://parts.igem.org/K200'' [])" example_env "''pkg''" _ "[{}]"]
    by simp
qed

subsection \<open>Loading an import file\<close>

lemma get_sbol3_doc_instance: "fst (snd (get_sbol3_doc env self loads)) = self"
  by (simp add: get_sbol3_doc_def split: option.splits sum.splits)

text \<open>
  Claim C5 does not hold of the code. \<open>get_sbol3_doc\<close> tests the field \<open>doc\<close> and
  returns it when it is set, but no branch sets it: the instance is the same after every
  call, and a second call on an instance that has loaded its file loads the file again.
\<close>

theorem get_sbol3_doc_loads_again:
  "get_sbol3_doc example_env example_sbol3_file [] =
     (read_sbol3 example_env ''pkg/iGEM_SBOL3_imports.nt'', example_sbol3_file,
      [''pkg/iGEM_SBOL3_imports.nt''])
   \<and> doc example_sbol3_file = None
   \<and> get_sbol3_doc example_env example_sbol3_file [''pkg/iGEM_SBOL3_imports.nt''] =
     (read_sbol3 example_env ''pkg/iGEM_SBOL3_imports.nt'', example_sbol3_file,
      [''pkg/iGEM_SBOL3_imports.nt'', ''pkg/iGEM_SBOL3_imports.nt''])"
  by (simp add: get_sbol3_doc_def example_sbol3_file_def)

subsection \<open>The GenBank retriever\<close>

text \<open>
  Claim C8, as amended. When the batched fetch raises \<^verbatim>\<open>HTTPError\<close>,
  \<open>retrieve_genbank_accessions\<close> returns the empty list after that one request, having
  written no file, and \<open>retrieve_parts\<close> goes on with the remaining sources. Any other
  exception of the fetch leaves the function.
\<close>

theorem genbank_fetch_failure:
  assumes "efetch env (net_log w) (join '','' (map (\<lambda>i. sbol_uri_to_accession i NCBI_PREFIX) ids)) = Inl e"
  shows "retrieve_genbank_accessions env ids package w =
           (if e = HTTPError then Inr [] else Inl e,
            w\<lparr>net_log := net_log w @
                 [Efetch (join '','' (map (\<lambda>i. sbol_uri_to_accession i NCBI_PREFIX) ids))]\<rparr>)
       \<and> (e = HTTPError \<and> ids \<noteq> [] \<and> ids = filter (\<lambda>i. startswith i NCBI_PREFIX) all_ids \<longrightarrow>
            retrieve_parts env all_ids package w =
              retrieve_loop env (tl source_list) (filter (\<lambda>i. i \<notin> set ids) all_ids) package []
                (w\<lparr>net_log := net_log w @
                 [Efetch (join '','' (map (\<lambda>i. sbol_uri_to_accession i NCBI_PREFIX) ids))]\<rparr>))"
proof -
  have g: "retrieve_genbank_accessions env ids package w =
           (if e = HTTPError then Inr [] else Inl e,
            w\<lparr>net_log := net_log w @
                 [Efetch (join '','' (map (\<lambda>i. sbol_uri_to_accession i NCBI_PREFIX) ids))]\<rparr>)"
    using assms by (simp add: retrieve_genbank_accessions_def Let_def)
  have "retrieve_parts env all_ids package w =
          retrieve_loop env (tl source_list) (filter (\<lambda>i. i \<notin> set ids) all_ids) package []
            (w\<lparr>net_log := net_log w @
                 [Efetch (join '','' (map (\<lambda>i. sbol_uri_to_accession i NCBI_PREFIX) ids))]\<rparr>)"
    if "e = HTTPError" and "ids \<noteq> []" and "ids = filter (\<lambda>i. startswith i NCBI_PREFIX) all_ids"
  proof -
    from g that(1)
    have g': "retrieve_genbank_accessions env ids package w =
           (Inr [], w\<lparr>net_log := net_log w @
                 [Efetch (join '','' (map (\<lambda>i. sbol_uri_to_accession i NCBI_PREFIX) ids))]\<rparr>)"
      by simp
    show ?thesis
      by (simp add: retrieve_parts_def source_list_def Let_def that(3) [symmetric] that(2) g')
  qed
  with g show ?thesis by blast
qed

lemma example_genbank_http_error:
  "efetch example_env (net_log empty_world)
     (join '','' (map (\<lambda>i. sbol_uri_to_accession i NCBI_PREFIX)
        [''https://www.ncbi.nlm.nih.gov/nuccore/XY9_1''])) = Inl HTTPError"
  by (simp add: example_env_def sbol_uri_to_accession_def removeprefix_def startswith_def
      NCBI_PREFIX_def replace_char_def)

theorem genbank_fetch_failure_witness:
  "retrieve_genbank_accessions example_env [''https://www.ncbi.nlm.nih.gov/nuccore/XY9_1'']
     ''pkg'' empty_world = (Inr [], empty_world\<lparr>net_log := [Efetch ''XY9.1'']\<rparr>)
   \<and> retrieve_parts example_env
       [''http://parts.igem.org/K100'', ''https://www.ncbi.nlm.nih.gov/nuccore/XY9_1'']
       ''pkg'' empty_world
     = (Inr [''http://parts.igem.org/K100''],
        empty_world\<lparr>sbol2_files := [''pkg/iGEM_SBOL2_imports.xml'' \<mapsto>
                                       [''https://synbiohub.org/public/igem/BBa_K100'']],
                    net_log := [Efetch ''XY9.1'',
                                Pull ''https://synbiohub.org''
                                  ''https://synbiohub.org/public/igem/BBa_K100'']\<rparr>)"
proof -
  have f: "[''https://www.ncbi.nlm.nih.gov/nuccore/XY9_1''] =
           filter (\<lambda>i. startswith i NCBI_PREFIX)
             [''http://parts.igem.org/K100'', ''https://www.ncbi.nlm.nih.gov/nuccore/XY9_1'']"
    by (simp add: startswith_def NCBI_PREFIX_def)
  have j: "join '','' (map (\<lambda>i. sbol_uri_to_accession i NCBI_PREFIX)
        [''https://www.ncbi.nlm.nih.gov/nuccore/XY9_1'']) = ''XY9.1''"
    by (simp add: sbol_uri_to_accession_def removeprefix_def startswith_def
      NCBI_PREFIX_def replace_char_def)
  have r: "retrieve_loop example_env (tl source_list)
             (filter (\<lambda>i. i \<notin> set [''https://www.ncbi.nlm.nih.gov/nuccore/XY9_1''])
                [''http://parts.igem.org/K100'', ''https://www.ncbi.nlm.nih.gov/nuccore/XY9_1''])
             ''pkg'' [] (empty_world\<lparr>net_log := [Efetch ''XY9.1'']\<rparr>)
           = (Inr [''http://parts.igem.org/K100''],
        empty_world\<lparr>sbol2_files := [''pkg/iGEM_SBOL2_imports.xml'' \<mapsto>
                                       [''https://synbiohub.org/public/igem/BBa_K100'']],
                    net_log := [Efetch ''XY9.1'',
                                Pull ''https://synbiohub.org''
                                  ''https://synbiohub.org/public/igem/BBa_K100'']\<rparr>)"
    by (simp add: source_list_def startswith_def NCBI_PREFIX_def retrieve_igem_parts_def
        igem_body_def Let_def example_env_def empty_world_def sbol_uri_to_accession_def
        removeprefix_def replace_char_def iGEM_SOURCE_PREFIX_def SBOL_iGEM_PATTERN_def
        path_join_def endswith_def IGEM_SBOL2_CACHE_FILE_def)
  show ?thesis
    using genbank_fetch_failure [OF example_genbank_http_error, of "''pkg''"
        "[''http://parts.igem.org/K100'', ''https://www.ncbi.nlm.nih.gov/nuccore/XY9_1'']"]
      f j r
    by (simp add: empty_world_def)
qed

text \<open>
  A fetch that fails with \<^verbatim>\<open>URLError\<close>, as it does when the server cannot be
  reached: the exception reaches the caller.
\<close>

theorem genbank_transport_failure_counterexample:
  "retrieve_genbank_accessions (example_env\<lparr>efetch := \<lambda>history ids. Inl URLError\<rparr>)
     [''https://www.ncbi.nlm.nih.gov/nuccore/AB1_1''] ''pkg'' empty_world
   = (Inl URLError, empty_world\<lparr>net_log := [Efetch ''AB1.1'']\<rparr>)"
  by (simp add: retrieve_genbank_accessions_def Let_def example_env_def empty_world_def
      sbol_uri_to_accession_def removeprefix_def startswith_def NCBI_PREFIX_def replace_char_def)

subsection \<open>The iGEM retriever\<close>

lemma igem_loop_append:
  "igem_loop env (xs @ ys) st w =
     (case igem_loop env xs st w of
        (Inl e, w') \<Rightarrow> (Inl e, w')
      | (Inr st', w') \<Rightarrow> igem_loop env ys st' w')"
proof (induction xs arbitrary: st w)
  case Nil
  show ?case by simp
next
  case (Cons x xs)
  obtain r w1 where b: "igem_body env x st w = (r, w1)" by (cases "igem_body env x st w")
  show ?case
  proof (cases r)
    case (Inl e)
    with b show ?thesis by simp
  next
    case (Inr st')
    with b Cons.IH [of st' w1] show ?thesis by simp
  qed
qed

lemma igem_body_ids:
  assumes "igem_body env i st w = (Inr st', w')"
  shows "retrieved_ids st' = retrieved_ids st \<or> retrieved_ids st' = retrieved_ids st @ [i]"
  using assms
  by (auto simp: igem_body_def Let_def split: sum.splits error.splits if_splits)

lemma igem_loop_ids:
  "igem_loop env ids st w = (Inr st', w') \<Longrightarrow>
   \<exists>xs. retrieved_ids st' = retrieved_ids st @ xs \<and> set xs \<subseteq> set ids"
proof (induction ids arbitrary: st w)
  case Nil
  then show ?case by simp
next
  case (Cons i ids)
  obtain r w1 where b: "igem_body env i st w = (r, w1)" by (cases "igem_body env i st w")
  show ?case
  proof (cases r)
    case (Inl e)
    with b Cons.prems show ?thesis by simp
  next
    case (Inr st1)
    with b Cons.prems have "igem_loop env ids st1 w1 = (Inr st', w')" by simp
    then obtain xs where xs: "retrieved_ids st' = retrieved_ids st1 @ xs" "set xs \<subseteq> set ids"
      using Cons.IH by blast
    from b Inr have "retrieved_ids st1 = retrieved_ids st \<or> retrieved_ids st1 = retrieved_ids st @ [i]"
      using igem_body_ids by blast
    then show ?thesis
    proof
      assume "retrieved_ids st1 = retrieved_ids st"
      with xs have "retrieved_ids st' = retrieved_ids st @ xs \<and> set xs \<subseteq> set (i # ids)" by auto
      then show ?thesis by blast
    next
      assume "retrieved_ids st1 = retrieved_ids st @ [i]"
      with xs have "retrieved_ids st' = retrieved_ids st @ (i # xs) \<and> set (i # xs) \<subseteq> set (i # ids)"
        by auto
      then show ?thesis by blast
    qed
  qed
qed

lemma igem_body_cases:
  fixes env :: "'o env"
  assumes "accession = sbol_uri_to_accession i iGEM_SOURCE_PREFIX"
    and "w1 = w\<lparr>net_log := net_log w @ [Pull ''https://synbiohub.org'' (SBOL_iGEM_PATTERN accession)]\<rparr>"
    and "w2 = w1\<lparr>net_log := net_log w1 @ [Urlopen (FASTA_iGEM_PATTERN accession) 5]\<rparr>"
    and "answer = pull env (net_log w) ''https://synbiohub.org'' (SBOL_iGEM_PATTERN accession) (ig_doc st)"
    and "fetched = urlopen env (net_log w1) (FASTA_iGEM_PATTERN accession) 5"
  shows accept: "answer = Inl (SBOLError SBOL_ERROR_NOT_FOUND) \<Longrightarrow> fetched = Inr body \<Longrightarrow>
          unambiguous_dna_sequence env (strip body) \<Longrightarrow>
          igem_body env i st w =
            (Inr (st\<lparr>retrieved_fasta := retrieved_fasta st @
                       ''> '' @ accession @ [CHR 0x0A] @ strip body @ [CHR 0x0A],
                     retrieved_ids := retrieved_ids st @ [i],
                     fasta_count := fasta_count st + 1\<rparr>), w2)"
    and reject: "answer = Inl (SBOLError SBOL_ERROR_NOT_FOUND) \<Longrightarrow> fetched = Inr body \<Longrightarrow>
          \<not> unambiguous_dna_sequence env (strip body) \<Longrightarrow>
          igem_body env i st w =
            (Inr st, w2\<lparr>stdout := stdout w2 @
                         [''  Retrieved text is not a DNA sequence: '' @ strip body]\<rparr>)"
    and reraise: "answer = Inl (SBOLError code) \<Longrightarrow> code \<noteq> SBOL_ERROR_NOT_FOUND \<Longrightarrow>
          igem_body env i st w = (Inl (SBOLError code), w1)"
    and no_fallback: "answer \<noteq> Inl (SBOLError SBOL_ERROR_NOT_FOUND) \<Longrightarrow>
          snd (igem_body env i st w) = w1"
proof -
  show "igem_body env i st w =
            (Inr (st\<lparr>retrieved_fasta := retrieved_fasta st @
                       ''> '' @ accession @ [CHR 0x0A] @ strip body @ [CHR 0x0A],
                     retrieved_ids := retrieved_ids st @ [i],
                     fasta_count := fasta_count st + 1\<rparr>), w2)"
    if "answer = Inl (SBOLError SBOL_ERROR_NOT_FOUND)" "fetched = Inr body"
       "unambiguous_dna_sequence env (strip body)"
    using that assms [symmetric] by (simp add: igem_body_def Let_def)
  show "igem_body env i st w =
            (Inr st, w2\<lparr>stdout := stdout w2 @
                         [''  Retrieved text is not a DNA sequence: '' @ strip body]\<rparr>)"
    if "answer = Inl (SBOLError SBOL_ERROR_NOT_FOUND)" "fetched = Inr body"
       "\<not> unambiguous_dna_sequence env (strip body)"
    using that assms [symmetric] by (simp add: igem_body_def Let_def)
  show "igem_body env i st w = (Inl (SBOLError code), w1)"
    if "answer = Inl (SBOLError code)" "code \<noteq> SBOL_ERROR_NOT_FOUND"
    using that assms [symmetric] by (simp add: igem_body_def Let_def)
  show "snd (igem_body env i st w) = w1"
    if "answer \<noteq> Inl (SBOLError SBOL_ERROR_NOT_FOUND)"
    using that assms(1,2,4)
    by (simp add: igem_body_def Let_def split: sum.splits error.splits)
qed

lemma retrieve_igem_parts_returns:
  assumes "retrieve_igem_parts env ids package w = (Inr r, w_end)"
  shows "\<exists>st' w'. igem_loop env ids
           \<lparr>ig_doc = (case sbol2_files w (path_join package IGEM_SBOL2_CACHE_FILE) of
                        Some cached \<Rightarrow> cached | None \<Rightarrow> []),
            retrieved_fasta = [], retrieved_ids = [], sbol_count = 0, fasta_count = 0\<rparr> w
           = (Inr st', w') \<and> r = retrieved_ids st'"
  using assms
  by (auto simp: retrieve_igem_parts_def Let_def split: prod.splits sum.splits)

lemma retrieve_igem_parts_raised:
  assumes "igem_loop env ids
           \<lparr>ig_doc = (case sbol2_files w (path_join package IGEM_SBOL2_CACHE_FILE) of
                        Some cached \<Rightarrow> cached | None \<Rightarrow> []),
            retrieved_fasta = [], retrieved_ids = [], sbol_count = 0, fasta_count = 0\<rparr> w
           = (Inl e, w')"
  shows "retrieve_igem_parts env ids package w = (Inl e, w')"
  using assms by (simp add: retrieve_igem_parts_def Let_def)

lemma igem_loop_middle:
  assumes "igem_loop env pre st0 w0 = (Inr st, w)"
  shows "igem_loop env (pre @ i # post) st0 w0 =
           (case igem_body env i st w of
              (Inl e, w') \<Rightarrow> (Inl e, w')
            | (Inr st', w') \<Rightarrow> igem_loop env post st' w')"
  using assms by (simp add: igem_loop_append)

text \<open>
  Claim C7. Let \<open>retrieve_igem_parts\<close> have processed the URIs \<open>pre\<close> without an
  exception and meet the URI \<open>i\<close>. If the pull answers "not found", the sequence is
  fetched from the registry with a timeout of 5 seconds; a text that passes the DNA
  check is accepted and \<open>i\<close> is in the returned list, any other text is discarded with a
  line of output and \<open>i\<close> is not added. A structured-repository error with another code
  is raised to the caller of \<open>retrieve_igem_parts\<close>; and unless the answer is "not found",
  nothing is fetched from the registry.
\<close>

theorem igem_fallback_on_not_found_only:
  fixes env :: "'o env"
  assumes acc: "accession = sbol_uri_to_accession i iGEM_SOURCE_PREFIX"
    and w1: "w1 = w\<lparr>net_log := net_log w @ [Pull ''https://synbiohub.org'' (SBOL_iGEM_PATTERN accession)]\<rparr>"
    and w2: "w2 = w1\<lparr>net_log := net_log w1 @ [Urlopen (FASTA_iGEM_PATTERN accession) 5]\<rparr>"
    and answer: "answer = pull env (net_log w) ''https://synbiohub.org'' (SBOL_iGEM_PATTERN accession) (ig_doc st)"
    and fetched: "fetched = urlopen env (net_log w1) (FASTA_iGEM_PATTERN accession) 5"
    and st0: "st0 = \<lparr>ig_doc = (case sbol2_files w0 (path_join package IGEM_SBOL2_CACHE_FILE) of
                        Some cached \<Rightarrow> cached | None \<Rightarrow> []),
            retrieved_fasta = [], retrieved_ids = [], sbol_count = 0, fasta_count = 0\<rparr>"
    and pre: "igem_loop env pre st0 w0 = (Inr st, w)"
  shows "(answer = Inl (SBOLError SBOL_ERROR_NOT_FOUND) \<and> fetched = Inr body
            \<and> unambiguous_dna_sequence env (strip body) \<longrightarrow>
          igem_body env i st w =
            (Inr (st\<lparr>retrieved_fasta := retrieved_fasta st @
                       ''> '' @ accession @ [CHR 0x0A] @ strip body @ [CHR 0x0A],
                     retrieved_ids := retrieved_ids st @ [i],
                     fasta_count := fasta_count st + 1\<rparr>), w2)
          \<and> (\<forall>r w_end. retrieve_igem_parts env (pre @ i # post) package w0 = (Inr r, w_end) \<longrightarrow>
                (\<exists>xs. r = retrieved_ids st @ i # xs \<and> set xs \<subseteq> set post)))
       \<and> (answer = Inl (SBOLError SBOL_ERROR_NOT_FOUND) \<and> fetched = Inr body
            \<and> \<not> unambiguous_dna_sequence env (strip body) \<longrightarrow>
          igem_body env i st w =
            (Inr st, w2\<lparr>stdout := stdout w2 @
                         [''  Retrieved text is not a DNA sequence: '' @ strip body]\<rparr>)
          \<and> (\<forall>r w_end. retrieve_igem_parts env (pre @ i # post) package w0 = (Inr r, w_end) \<longrightarrow>
                (\<exists>xs. r = retrieved_ids st @ xs \<and> set xs \<subseteq> set post)))
       \<and> (answer = Inl (SBOLError code) \<and> code \<noteq> SBOL_ERROR_NOT_FOUND \<longrightarrow>
          igem_body env i st w = (Inl (SBOLError code), w1)
          \<and> retrieve_igem_parts env (pre @ i # post) package w0 = (Inl (SBOLError code), w1))
       \<and> (answer \<noteq> Inl (SBOLError SBOL_ERROR_NOT_FOUND) \<longrightarrow> snd (igem_body env i st w) = w1)"
proof -
  note body_cases = igem_body_cases [OF acc w1 w2 answer fetched]
  have after: "\<exists>xs. r = retrieved_ids st' @ xs \<and> set xs \<subseteq> set post"
    if b: "igem_body env i st w = (Inr st', w')"
      and r: "retrieve_igem_parts env (pre @ i # post) package w0 = (Inr r, w_end)"
    for st' w' r w_end
  proof -
    from retrieve_igem_parts_returns [OF r] st0 obtain stf wl
      where l: "igem_loop env (pre @ i # post) st0 w0 = (Inr stf, wl)" and rf: "r = retrieved_ids stf"
      by auto
    from l b have "igem_loop env post st' w' = (Inr stf, wl)"
      by (simp add: igem_loop_middle [OF pre])
    from igem_loop_ids [OF this] rf show ?thesis by simp
  qed
  have a: "igem_body env i st w =
            (Inr (st\<lparr>retrieved_fasta := retrieved_fasta st @
                       ''> '' @ accession @ [CHR 0x0A] @ strip body @ [CHR 0x0A],
                     retrieved_ids := retrieved_ids st @ [i],
                     fasta_count := fasta_count st + 1\<rparr>), w2)
          \<and> (\<forall>r w_end. retrieve_igem_parts env (pre @ i # post) package w0 = (Inr r, w_end) \<longrightarrow>
                (\<exists>xs. r = retrieved_ids st @ i # xs \<and> set xs \<subseteq> set post))"
    if h: "answer = Inl (SBOLError SBOL_ERROR_NOT_FOUND)" "fetched = Inr body"
          "unambiguous_dna_sequence env (strip body)"
  proof (intro conjI allI impI)
    show b: "igem_body env i st w =
            (Inr (st\<lparr>retrieved_fasta := retrieved_fasta st @
                       ''> '' @ accession @ [CHR 0x0A] @ strip body @ [CHR 0x0A],
                     retrieved_ids := retrieved_ids st @ [i],
                     fasta_count := fasta_count st + 1\<rparr>), w2)"
      using h by (rule body_cases(1))
    fix r w_end
    assume "retrieve_igem_parts env (pre @ i # post) package w0 = (Inr r, w_end)"
    from after [OF b this] show "\<exists>xs. r = retrieved_ids st @ i # xs \<and> set xs \<subseteq> set post"
      by simp
  qed
  have b: "igem_body env i st w =
            (Inr st, w2\<lparr>stdout := stdout w2 @
                         [''  Retrieved text is not a DNA sequence: '' @ strip body]\<rparr>)
          \<and> (\<forall>r w_end. retrieve_igem_parts env (pre @ i # post) package w0 = (Inr r, w_end) \<longrightarrow>
                (\<exists>xs. r = retrieved_ids st @ xs \<and> set xs \<subseteq> set post))"
    if h: "answer = Inl (SBOLError SBOL_ERROR_NOT_FOUND)" "fetched = Inr body"
          "\<not> unambiguous_dna_sequence env (strip body)"
  proof (intro conjI allI impI)
    show b: "igem_body env i st w =
            (Inr st, w2\<lparr>stdout := stdout w2 @
                         [''  Retrieved text is not a DNA sequence: '' @ strip body]\<rparr>)"
      using h by (rule body_cases(2))
    fix r w_end
    assume "retrieve_igem_parts env (pre @ i # post) package w0 = (Inr r, w_end)"
    from after [OF b this] show "\<exists>xs. r = retrieved_ids st @ xs \<and> set xs \<subseteq> set post" .
  qed
  have c: "igem_body env i st w = (Inl (SBOLError code), w1)
          \<and> retrieve_igem_parts env (pre @ i # post) package w0 = (Inl (SBOLError code), w1)"
    if h: "answer = Inl (SBOLError code)" "code \<noteq> SBOL_ERROR_NOT_FOUND"
  proof
    show b: "igem_body env i st w = (Inl (SBOLError code), w1)"
      using h by (rule body_cases(3))
    then have "igem_loop env (pre @ i # post) st0 w0 = (Inl (SBOLError code), w1)"
      by (simp add: igem_loop_middle [OF pre])
    then show "retrieve_igem_parts env (pre @ i # post) package w0 = (Inl (SBOLError code), w1)"
      unfolding st0 by (rule retrieve_igem_parts_raised)
  qed
  have d: "snd (igem_body env i st w) = w1" if "answer \<noteq> Inl (SBOLError SBOL_ERROR_NOT_FOUND)"
    using that by (rule body_cases(4))
  from a b c d show ?thesis by blast
qed

lemma example_igem_first:
  "igem_loop example_env [''http://parts.igem.org/K100'']
     \<lparr>ig_doc = (case sbol2_files empty_world (path_join ''pkg'' IGEM_SBOL2_CACHE_FILE) of
                  Some cached \<Rightarrow> cached | None \<Rightarrow> []),
      retrieved_fasta = [], retrieved_ids = [], sbol_count = 0, fasta_count = 0\<rparr> empty_world
   = (Inr \<lparr>ig_doc = [''https://synbiohub.org/public/igem/BBa_K100''], retrieved_fasta = [],
           retrieved_ids = [''http://parts.igem.org/K100''], sbol_count = 1, fasta_count = 0\<rparr>,
      empty_world\<lparr>net_log := [Pull ''https://synbiohub.org''
                                  ''https://synbiohub.org/public/igem/BBa_K100'']\<rparr>)"
  by (simp add: igem_body_def Let_def example_env_def empty_world_def
      sbol_uri_to_accession_def removeprefix_def startswith_def replace_char_def
      iGEM_SOURCE_PREFIX_def SBOL_iGEM_PATTERN_def)

lemma example_accession:
  "sbol_uri_to_accession ''http://parts.igem.org/K404'' iGEM_SOURCE_PREFIX = ''K404''"
  "sbol_uri_to_accession ''http://parts.igem.org/K405'' iGEM_SOURCE_PREFIX = ''K405''"
  "sbol_uri_to_accession ''http://parts.igem.org/K999'' iGEM_SOURCE_PREFIX = ''K999''"
  by (simp_all add: sbol_uri_to_accession_def removeprefix_def startswith_def replace_char_def
      iGEM_SOURCE_PREFIX_def)

lemma example_strip: "strip ''atgc '' = ''atgc''" "strip ''<html>'' = ''<html>''"
  by (simp_all add: strip_def isspace_def)

text \<open>After the part \<open>K100\<close>: a part with a sequence at the registry, a part for which
  the registry answers with HTML, and a part for which SynBioHub fails otherwise.\<close>

theorem igem_fallback_on_not_found_only_witness:
  "igem_body example_env ''http://parts.igem.org/K404''
     \<lparr>ig_doc = [''https://synbiohub.org/public/igem/BBa_K100''], retrieved_fasta = [],
      retrieved_ids = [''http://parts.igem.org/K100''], sbol_count = 1, fasta_count = 0\<rparr>
     (empty_world\<lparr>net_log := [Pull ''https://synbiohub.org''
                                  ''https://synbiohub.org/public/igem/BBa_K100'']\<rparr>)
   = (Inr \<lparr>ig_doc = [''https://synbiohub.org/public/igem/BBa_K100''],
           retrieved_fasta = ''> K404'' @ [CHR 0x0A] @ ''atgc'' @ [CHR 0x0A],
           retrieved_ids = [''http://parts.igem.org/K100'', ''http://parts.igem.org/K404''],
           sbol_count = 1, fasta_count = 1\<rparr>,
      empty_world\<lparr>net_log := [Pull ''https://synbiohub.org'' ''https://synbiohub.org/public/igem/BBa_K100'',
         Pull ''https://synbiohub.org'' ''https://synbiohub.org/public/igem/BBa_K404'',
         Urlopen ''http://parts.igem.org/cgi/partsdb/composite_edit/putseq.cgi?part=K404'' 5]\<rparr>)
   \<and> igem_body example_env ''http://parts.igem.org/K405''
     \<lparr>ig_doc = [''https://synbiohub.org/public/igem/BBa_K100''], retrieved_fasta = [],
      retrieved_ids = [''http://parts.igem.org/K100''], sbol_count = 1, fasta_count = 0\<rparr>
     (empty_world\<lparr>net_log := [Pull ''https://synbiohub.org''
                                  ''https://synbiohub.org/public/igem/BBa_K100'']\<rparr>)
   = (Inr \<lparr>ig_doc = [''https://synbiohub.org/public/igem/BBa_K100''], retrieved_fasta = [],
           retrieved_ids = [''http://parts.igem.org/K100''], sbol_count = 1, fasta_count = 0\<rparr>,
      empty_world\<lparr>net_log := [Pull ''https://synbiohub.org'' ''https://synbiohub.org/public/igem/BBa_K100'',
         Pull ''https://synbiohub.org'' ''https://synbiohub.org/public/igem/BBa_K405'',
         Urlopen ''http://parts.igem.org/cgi/partsdb/composite_edit/putseq.cgi?part=K405'' 5],
         stdout := [''  Retrieved text is not a DNA sequence: <html>'']\<rparr>)
   \<and> retrieve_igem_parts example_env
       [''http://parts.igem.org/K100'', ''http://parts.igem.org/K999'', ''http://parts.igem.org/K404'']
       ''pkg'' empty_world
   = (Inl (SBOLError (SBOL_ERROR_OTHER 1)),
      empty_world\<lparr>net_log := [Pull ''https://synbiohub.org'' ''https://synbiohub.org/public/igem/BBa_K100'',
         Pull ''https://synbiohub.org'' ''https://synbiohub.org/public/igem/BBa_K999'']\<rparr>)"
proof -
  note t = igem_fallback_on_not_found_only [OF refl refl refl refl refl refl example_igem_first]
  have a: "pull example_env [Pull ''https://synbiohub.org'' ''https://synbiohub.org/public/igem/BBa_K100'']
             ''https://synbiohub.org'' ''https://synbiohub.org/public/igem/BBa_K404''
             [''https://synbiohub.org/public/igem/BBa_K100''] = Inl (SBOLError SBOL_ERROR_NOT_FOUND)"
          "pull example_env [Pull ''https://synbiohub.org'' ''https://synbiohub.org/public/igem/BBa_K100'']
             ''https://synbiohub.org'' ''https://synbiohub.org/public/igem/BBa_K405''
             [''https://synbiohub.org/public/igem/BBa_K100''] = Inl (SBOLError SBOL_ERROR_NOT_FOUND)"
          "pull example_env [Pull ''https://synbiohub.org'' ''https://synbiohub.org/public/igem/BBa_K100'']
             ''https://synbiohub.org'' ''https://synbiohub.org/public/igem/BBa_K999''
             [''https://synbiohub.org/public/igem/BBa_K100''] = Inl (SBOLError (SBOL_ERROR_OTHER 1))"
    by (simp_all add: example_env_def)
  have f: "urlopen example_env
             [Pull ''https://synbiohub.org'' ''https://synbiohub.org/public/igem/BBa_K100'',
              Pull ''https://synbiohub.org'' ''https://synbiohub.org/public/igem/BBa_K404'']
             ''http://parts.igem.org/cgi/partsdb/composite_edit/putseq.cgi?part=K404'' 5 = Inr ''atgc ''"
          "urlopen example_env
             [Pull ''https://synbiohub.org'' ''https://synbiohub.org/public/igem/BBa_K100'',
              Pull ''https://synbiohub.org'' ''https://synbiohub.org/public/igem/BBa_K405'']
             ''http://parts.igem.org/cgi/partsdb/composite_edit/putseq.cgi?part=K405'' 5 = Inr ''<html>''"
    by (simp_all add: example_env_def)
  have d: "unambiguous_dna_sequence example_env ''atgc''"
          "\<not> unambiguous_dna_sequence example_env ''<html>''"
    by (simp_all add: example_env_def)
  show ?thesis
    using t [where i = "''http://parts.igem.org/K404''" and body = "''atgc ''"
           and code = "SBOL_ERROR_OTHER 1" and post = "[]"]
      t [where i = "''http://parts.igem.org/K405''" and body = "''<html>''"
           and code = "SBOL_ERROR_OTHER 1" and post = "[]"]
      t [where i = "''http://parts.igem.org/K999''" and body = "[]"
           and code = "SBOL_ERROR_OTHER 1" and post = "[''http://parts.igem.org/K404'']"]
      a f d
    by (simp add: example_accession example_strip SBOL_iGEM_PATTERN_def FASTA_iGEM_PATTERN_def
        empty_world_def)
qed

subsection \<open>The cache files are written after the loop\<close>

lemma igem_body_files:
  "sbol2_files (snd (igem_body env i st w)) = sbol2_files w
   \<and> text_files (snd (igem_body env i st w)) = text_files w"
  by (simp add: igem_body_def Let_def split: sum.split error.split)

lemma igem_loop_files:
  "sbol2_files (snd (igem_loop env ids st w)) = sbol2_files w
   \<and> text_files (snd (igem_loop env ids st w)) = text_files w"
proof (induction ids arbitrary: st w)
  case Nil
  show ?case by simp
next
  case (Cons i ids)
  obtain r w1 where b: "igem_body env i st w = (r, w1)" by (cases "igem_body env i st w")
  have f: "sbol2_files w1 = sbol2_files w \<and> text_files w1 = text_files w"
    using igem_body_files [of env i st w] b by simp
  show ?case
  proof (cases r)
    case (Inl e)
    with b f show ?thesis by simp
  next
    case (Inr st')
    with b f Cons.IH [of st' w1] show ?thesis by simp
  qed
qed

lemma synbiohub_body_files:
  "sbol2_files (snd (synbiohub_body env url st w)) = sbol2_files w
   \<and> text_files (snd (synbiohub_body env url st w)) = text_files w"
  by (simp add: synbiohub_body_def Let_def split: sum.split error.split)

lemma synbiohub_loop_files:
  "sbol2_files (snd (synbiohub_loop env ids st w)) = sbol2_files w
   \<and> text_files (snd (synbiohub_loop env ids st w)) = text_files w"
proof (induction ids arbitrary: st w)
  case Nil
  show ?case by simp
next
  case (Cons i ids)
  obtain r w1 where b: "synbiohub_body env i st w = (r, w1)"
    by (cases "synbiohub_body env i st w")
  have f: "sbol2_files w1 = sbol2_files w \<and> text_files w1 = text_files w"
    using synbiohub_body_files [of env i st w] b by simp
  show ?case
  proof (cases r)
    case (Inl e)
    with b f show ?thesis by simp
  next
    case (Inr st')
    with b f Cons.IH [of st' w1] show ?thesis by simp
  qed
qed

lemma retrieve_igem_parts_raises:
  assumes "retrieve_igem_parts env ids package w = (Inl e, w')"
  shows "(Inl e, w') = igem_loop env ids
           \<lparr>ig_doc = (case sbol2_files w (path_join package IGEM_SBOL2_CACHE_FILE) of
                        Some cached \<Rightarrow> cached | None \<Rightarrow> []),
            retrieved_fasta = [], retrieved_ids = [], sbol_count = 0, fasta_count = 0\<rparr> w"
  using assms
  by (simp add: retrieve_igem_parts_def Let_def split: prod.splits sum.splits)

lemma retrieve_synbiohub_parts_raises:
  assumes "retrieve_synbiohub_parts env ids package w = (Inl e, w')"
  shows "(Inl e, w') = synbiohub_loop env ids
           ((case sbol2_files w (path_join package IGEM_SBOL2_CACHE_FILE) of
               Some cached \<Rightarrow> cached | None \<Rightarrow> []), []) w"
  using assms
  by (simp add: retrieve_synbiohub_parts_def Let_def split: prod.splits sum.splits if_splits)

text \<open>
  Claim C10. When \<open>retrieve_igem_parts\<close> or \<open>retrieve_synbiohub_parts\<close> raises, whatever
  the exception and so for a structured-repository error other than "not found", the
  files are as they were before the call: the URIs pulled before the error are not
  persisted.
\<close>

theorem no_cache_written_on_error:
  "(retrieve_igem_parts env ids package w = (Inl e, w') \<longrightarrow>
      sbol2_files w' = sbol2_files w \<and> text_files w' = text_files w)
   \<and> (retrieve_synbiohub_parts env ids package w = (Inl e, w') \<longrightarrow>
      sbol2_files w' = sbol2_files w \<and> text_files w' = text_files w)"
proof (intro conjI impI)
  assume a: "retrieve_igem_parts env ids package w = (Inl e, w')"
  have "w' = snd (igem_loop env ids
           \<lparr>ig_doc = (case sbol2_files w (path_join package IGEM_SBOL2_CACHE_FILE) of
                        Some cached \<Rightarrow> cached | None \<Rightarrow> []),
            retrieved_fasta = [], retrieved_ids = [], sbol_count = 0, fasta_count = 0\<rparr> w)"
    using retrieve_igem_parts_raises [OF a, symmetric] by simp
  then show "sbol2_files w' = sbol2_files w" and "text_files w' = text_files w"
    by (simp_all add: igem_loop_files)
next
  assume a: "retrieve_synbiohub_parts env ids package w = (Inl e, w')"
  have "w' = snd (synbiohub_loop env ids
           ((case sbol2_files w (path_join package IGEM_SBOL2_CACHE_FILE) of
               Some cached \<Rightarrow> cached | None \<Rightarrow> []), []) w)"
    using retrieve_synbiohub_parts_raises [OF a, symmetric] by simp
  then show "sbol2_files w' = sbol2_files w" and "text_files w' = text_files w"
    by (simp_all add: synbiohub_loop_files)
qed

lemma example_igem_error:
  "retrieve_igem_parts example_env [''http://parts.igem.org/K100'', ''http://parts.igem.org/K999'']
     ''pkg'' empty_world
   = (Inl (SBOLError (SBOL_ERROR_OTHER 1)),
      empty_world\<lparr>net_log := [Pull ''https://synbiohub.org'' ''https://synbiohub.org/public/igem/BBa_K100'',
                                Pull ''https://synbiohub.org'' ''https://synbiohub.org/public/igem/BBa_K999'']\<rparr>)"
  by (simp add: retrieve_igem_parts_def igem_body_def Let_def example_env_def empty_world_def
      sbol_uri_to_accession_def removeprefix_def startswith_def replace_char_def
      iGEM_SOURCE_PREFIX_def SBOL_iGEM_PATTERN_def)

lemma example_synbiohub_error:
  "retrieve_synbiohub_parts example_env
     [''https://synbiohub.org/public/igem/BBa_K100'', ''https://synbiohub.org/user/x/1'']
     ''pkg'' empty_world
   = (Inl (SBOLError (SBOL_ERROR_OTHER 1)),
      empty_world\<lparr>net_log := [Pull ''https://synbiohub.org'' ''https://synbiohub.org/public/igem/BBa_K100'',
                                Pull ''https://synbiohub.org'' ''https://synbiohub.org/user/x/1'']\<rparr>)"
  by (simp add: retrieve_synbiohub_parts_def synbiohub_body_def Let_def example_env_def
      empty_world_def)

text \<open>In both runs the first URI is pulled and the second one fails.\<close>

theorem no_cache_written_on_error_witness:
  "retrieve_igem_parts example_env [''http://parts.igem.org/K100'', ''http://parts.igem.org/K999'']
     ''pkg'' empty_world
   = (Inl (SBOLError (SBOL_ERROR_OTHER 1)),
      empty_world\<lparr>net_log := [Pull ''https://synbiohub.org'' ''https://synbiohub.org/public/igem/BBa_K100'',
                                Pull ''https://synbiohub.org'' ''https://synbiohub.org/public/igem/BBa_K999'']\<rparr>)
   \<and> sbol2_files (empty_world\<lparr>net_log := [Pull ''https://synbiohub.org'' ''https://synbiohub.org/public/igem/BBa_K100'',
                                Pull ''https://synbiohub.org'' ''https://synbiohub.org/public/igem/BBa_K999'']\<rparr>)
       = sbol2_files empty_world
   \<and> retrieve_synbiohub_parts example_env
     [''https://synbiohub.org/public/igem/BBa_K100'', ''https://synbiohub.org/user/x/1'']
     ''pkg'' empty_world
   = (Inl (SBOLError (SBOL_ERROR_OTHER 1)),
      empty_world\<lparr>net_log := [Pull ''https://synbiohub.org'' ''https://synbiohub.org/public/igem/BBa_K100'',
                                Pull ''https://synbiohub.org'' ''https://synbiohub.org/user/x/1'']\<rparr>)
   \<and> sbol2_files (empty_world\<lparr>net_log := [Pull ''https://synbiohub.org'' ''https://synbiohub.org/public/igem/BBa_K100'',
                                Pull ''https://synbiohub.org'' ''https://synbiohub.org/user/x/1'']\<rparr>)
       = sbol2_files empty_world"
  using example_igem_error example_synbiohub_error
    no_cache_written_on_error [of example_env
      "[''http://parts.igem.org/K100'', ''http://parts.igem.org/K999'']" "''pkg''" empty_world
      "SBOLError (SBOL_ERROR_OTHER 1)"
      "empty_world\<lparr>net_log := [Pull ''https://synbiohub.org'' ''https://synbiohub.org/public/igem/BBa_K100'',
                                Pull ''https://synbiohub.org'' ''https://synbiohub.org/public/igem/BBa_K999'']\<rparr>"]
    no_cache_written_on_error [of example_env
      "[''https://synbiohub.org/public/igem/BBa_K100'', ''https://synbiohub.org/user/x/1'']" "''pkg''"
      empty_world "SBOLError (SBOL_ERROR_OTHER 1)"
      "empty_world\<lparr>net_log := [Pull ''https://synbiohub.org'' ''https://synbiohub.org/public/igem/BBa_K100'',
                                Pull ''https://synbiohub.org'' ''https://synbiohub.org/user/x/1'']\<rparr>"]
  by simp

subsection \<open>The source router\<close>

lemma first_match_Cons:
  "first_match (p # ps) i = (if startswith i p then Some p else first_match ps i)"
  by (simp add: first_match_def)

lemma first_match_in: "first_match ps i = Some q \<Longrightarrow> q \<in> set ps"
  by (auto simp: first_match_def find_Some_iff)

lemma first_match_None: "first_match ps i = None \<longleftrightarrow> (\<forall>p \<in> set ps. \<not> startswith i p)"
  by (auto simp: first_match_def find_None_iff)

lemma routed_to_head:
  assumes "p \<notin> set ps"
  shows "routed_to (p # ps) ids p = filter (\<lambda>i. startswith i p) ids"
proof -
  have "first_match (p # ps) i = Some p \<longleftrightarrow> startswith i p" for i
    using assms first_match_in [of ps i p] by (auto simp: first_match_Cons)
  then show ?thesis by (simp add: routed_to_def)
qed

lemma routed_to_tail:
  assumes "q \<noteq> p"
  shows "routed_to (p # ps) ids q =
         routed_to ps (filter (\<lambda>i. i \<notin> set (filter (\<lambda>i. startswith i p) ids)) ids) q"
proof -
  have "filter (\<lambda>i. i \<notin> set (filter (\<lambda>i. startswith i p) ids)) ids
        = filter (\<lambda>i. \<not> startswith i p) ids"
    by (rule filter_cong) auto
  moreover have "first_match (p # ps) i = Some q \<longleftrightarrow> \<not> startswith i p \<and> first_match ps i = Some q"
    for i
    using assms by (auto simp: first_match_Cons)
  ultimately show ?thesis
    by (simp add: routed_to_def conj_commute)
qed

lemma retrieve_loop_routes:
  "distinct (map fst tbl) \<Longrightarrow>
   retrieve_loop env tbl ids package c w =
     run_retrievers env (map (\<lambda>(p, r). (r, routed_to (map fst tbl) ids p)) tbl) package c w"
proof (induction tbl arbitrary: ids c w)
  case Nil
  show ?case by simp
next
  case (Cons b rest)
  obtain p r where b: "b = (p, r)" by (cases b)
  from Cons.prems b have p: "p \<notin> set (map fst rest)" and d: "distinct (map fst rest)"
    by simp_all
  let ?matches = "filter (\<lambda>i. startswith i p) ids"
  let ?ids' = "filter (\<lambda>i. i \<notin> set ?matches) ids"
  have head: "routed_to (p # map fst rest) ids p = ?matches"
    using p by (rule routed_to_head)
  have tail: "map (\<lambda>(q, r). (r, routed_to (p # map fst rest) ids q)) rest
            = map (\<lambda>(q, r). (r, routed_to (map fst rest) ?ids' q)) rest"
  proof (rule map_cong [OF refl])
    fix x
    assume x: "x \<in> set rest"
    obtain q r' where xq: "x = (q, r')" by (cases x)
    with x have "q \<in> set (map fst rest)" by force
    with p have "q \<noteq> p" by auto
    then have "routed_to (p # map fst rest) ids q = routed_to (map fst rest) ?ids' q"
      by (rule routed_to_tail)
    with xq show "(case x of (q, r) \<Rightarrow> (r, routed_to (p # map fst rest) ids q))
                = (case x of (q, r) \<Rightarrow> (r, routed_to (map fst rest) ?ids' q))"
      by simp
  qed
  have ih: "retrieve_loop env rest ?ids' package c' w' =
            run_retrievers env (map (\<lambda>(q, r). (r, routed_to (map fst rest) ?ids' q)) rest)
              package c' w'" for c' w'
    using Cons.IH [OF d] .
  have calls: "map (\<lambda>(p, r). (r, routed_to (map fst (b # rest)) ids p)) (b # rest)
             = (r, ?matches) # map (\<lambda>(q, r). (r, routed_to (map fst rest) ?ids' q)) rest"
    unfolding b by (simp only: list.map fst_conv prod.case head tail)
  show ?case
  proof (cases "?matches = []")
    case True
    have 1: "retrieve_loop env (b # rest) ids package c w = retrieve_loop env rest ?ids' package c w"
      using True by (simp add: b)
    have 2: "run_retrievers env
        ((r, ?matches) # map (\<lambda>(q, r). (r, routed_to (map fst rest) ?ids' q)) rest) package c w
        = run_retrievers env
            (map (\<lambda>(q, r). (r, routed_to (map fst rest) ?ids' q)) rest) package c w"
      using True by simp
    show ?thesis unfolding calls 1 2 by (rule ih)
  next
    case False
    obtain res w' where res: "r env ?matches package w = (res, w')"
      by (cases "r env ?matches package w")
    show ?thesis
    proof (cases res)
      case (Inl e)
      have 1: "retrieve_loop env (b # rest) ids package c w = (Inl e, w')"
        using False res Inl by (simp add: b)
      have 2: "run_retrievers env
          ((r, ?matches) # map (\<lambda>(q, r). (r, routed_to (map fst rest) ?ids' q)) rest) package c w
          = (Inl e, w')"
        using False res Inl by simp
      show ?thesis unfolding calls 1 2 ..
    next
      case (Inr successes)
      have 1: "retrieve_loop env (b # rest) ids package c w =
               retrieve_loop env rest ?ids' package (c @ successes) w'"
        using False res Inr by (simp add: b)
      have 2: "run_retrievers env
          ((r, ?matches) # map (\<lambda>(q, r). (r, routed_to (map fst rest) ?ids' q)) rest) package c w
          = run_retrievers env
              (map (\<lambda>(q, r). (r, routed_to (map fst rest) ?ids' q)) rest) package (c @ successes) w'"
        using False res Inr by simp
      show ?thesis unfolding calls 1 2 by (rule ih)
    qed
  qed
qed

lemma routed_once:
  "i \<in> set (routed_to ps ids p) \<Longrightarrow> i \<in> set (routed_to ps ids q) \<Longrightarrow> p = q"
  by (simp add: routed_to_def)

lemma routed_iff:
  "i \<in> set (routed_to ps ids p) \<longleftrightarrow> i \<in> set ids \<and> first_match ps i = Some p"
  by (auto simp: routed_to_def)

lemma first_match_nth:
  assumes "distinct ps" and "k < length ps"
  shows "first_match ps i = Some (ps ! k) \<longleftrightarrow>
         startswith i (ps ! k) \<and> (\<forall>j<k. \<not> startswith i (ps ! j))"
proof
  assume "first_match ps i = Some (ps ! k)"
  then obtain n where n: "n < length ps" "startswith i (ps ! n)" "ps ! k = ps ! n"
      "\<forall>j<n. \<not> startswith i (ps ! j)"
    by (auto simp: first_match_def find_Some_iff)
  from n(3) have "k = n"
    using nth_eq_iff_index_eq [OF assms(1) assms(2) n(1)] by blast
  with n(2) n(4) show "startswith i (ps ! k) \<and> (\<forall>j<k. \<not> startswith i (ps ! j))" by simp
next
  assume "startswith i (ps ! k) \<and> (\<forall>j<k. \<not> startswith i (ps ! j))"
  with assms(2) show "first_match ps i = Some (ps ! k)"
    by (auto simp: first_match_def find_Some_iff)
qed

lemma source_list_prefixes:
  "map fst source_list =
     [NCBI_PREFIX, ''https://synbiohub.org/public/igem/'', ''http://parts.igem.org/'',
      ''https://synbiohub'']"
  by (simp add: source_list_def)

lemma source_list_distinct: "distinct (map fst source_list)"
  by (simp add: source_list_def NCBI_PREFIX_def)

text \<open>
  Claim C2. \<open>retrieve_parts\<close> calls the retrievers of the table in its order, each with
  the URIs routed to its prefix, skipping a retriever with no URI, and returns the
  concatenation of the lists they return. A URI is routed to a prefix exactly when it
  starts with it and with no earlier prefix of the table: so it is passed to one
  retriever at most, also when it starts with several prefixes, and to none when it
  starts with no prefix.
\<close>

theorem retrieve_parts_routing:
  fixes env :: "'o env"
  assumes "prefixes = [NCBI_PREFIX, ''https://synbiohub.org/public/igem/'',
                       ''http://parts.igem.org/'', ''https://synbiohub'']"
  shows "retrieve_parts env ids package w =
           run_retrievers env
             [(retrieve_genbank_accessions, routed_to prefixes ids NCBI_PREFIX),
              (retrieve_igem_parts, routed_to prefixes ids ''https://synbiohub.org/public/igem/''),
              (retrieve_igem_parts, routed_to prefixes ids ''http://parts.igem.org/''),
              (retrieve_synbiohub_parts, routed_to prefixes ids ''https://synbiohub'')]
             package [] w
       \<and> (\<forall>k<length prefixes. \<forall>i.
             i \<in> set (routed_to prefixes ids (prefixes ! k)) \<longleftrightarrow>
             i \<in> set ids \<and> startswith i (prefixes ! k) \<and> (\<forall>j<k. \<not> startswith i (prefixes ! j)))
       \<and> (\<forall>i p q. i \<in> set (routed_to prefixes ids p) \<and> i \<in> set (routed_to prefixes ids q)
             \<longrightarrow> p = q)
       \<and> (\<forall>i. (\<forall>p \<in> set prefixes. \<not> startswith i p) \<longrightarrow>
             (\<forall>p. i \<notin> set (routed_to prefixes ids p)))"
proof (intro conjI)
  have p: "prefixes = map fst (source_list :: (string \<times> 'o retriever) list)"
    using assms by (simp add: source_list_prefixes)
  have d: "distinct prefixes"
    unfolding p by (rule source_list_distinct)
  have "retrieve_parts env ids package w =
        run_retrievers env
          (map (\<lambda>(p, r). (r, routed_to (map fst (source_list :: (string \<times> 'o retriever) list)) ids p))
             source_list)
          package [] w"
    unfolding retrieve_parts_def by (rule retrieve_loop_routes [OF source_list_distinct])
  also have "map (\<lambda>(p, r). (r, routed_to (map fst (source_list :: (string \<times> 'o retriever) list)) ids p))
               (source_list :: (string \<times> 'o retriever) list)
           = [(retrieve_genbank_accessions, routed_to prefixes ids NCBI_PREFIX),
              (retrieve_igem_parts, routed_to prefixes ids ''https://synbiohub.org/public/igem/''),
              (retrieve_igem_parts, routed_to prefixes ids ''http://parts.igem.org/''),
              (retrieve_synbiohub_parts, routed_to prefixes ids ''https://synbiohub'')]"
    unfolding p [symmetric] by (simp add: source_list_def)
  finally show "retrieve_parts env ids package w =
           run_retrievers env
             [(retrieve_genbank_accessions, routed_to prefixes ids NCBI_PREFIX),
              (retrieve_igem_parts, routed_to prefixes ids ''https://synbiohub.org/public/igem/''),
              (retrieve_igem_parts, routed_to prefixes ids ''http://parts.igem.org/''),
              (retrieve_synbiohub_parts, routed_to prefixes ids ''https://synbiohub'')]
             package [] w" .
  show "\<forall>k<length prefixes. \<forall>i.
             i \<in> set (routed_to prefixes ids (prefixes ! k)) \<longleftrightarrow>
             i \<in> set ids \<and> startswith i (prefixes ! k) \<and> (\<forall>j<k. \<not> startswith i (prefixes ! j))"
    using first_match_nth [OF d] by (simp add: routed_iff)
  show "\<forall>i p q. i \<in> set (routed_to prefixes ids p) \<and> i \<in> set (routed_to prefixes ids q)
             \<longrightarrow> p = q"
    using routed_once by blast
  show "\<forall>i. (\<forall>p \<in> set prefixes. \<not> startswith i p) \<longrightarrow>
             (\<forall>p. i \<notin> set (routed_to prefixes ids p))"
    using first_match_None [of prefixes] by (simp add: routed_iff)
qed

lemma example_routing_run:
  "run_retrievers example_env
     [(retrieve_genbank_accessions, [''https://www.ncbi.nlm.nih.gov/nuccore/AB1_1'']),
      (retrieve_igem_parts, []),
      (retrieve_igem_parts, [''http://parts.igem.org/K100'']),
      (retrieve_synbiohub_parts, [])] ''pkg'' [] empty_world
   = (Inr [''https://www.ncbi.nlm.nih.gov/nuccore/AB1_1'', ''http://parts.igem.org/K100''],
      empty_world\<lparr>sbol2_files := [''pkg/iGEM_SBOL2_imports.xml'' \<mapsto>
                                     [''https://synbiohub.org/public/igem/BBa_K100'']],
                  text_files := [''pkg/GenBank_imports.gb'' \<mapsto> ''LOCUS AB1''],
                  net_log := [Efetch ''AB1.1'',
                              Pull ''https://synbiohub.org''
                                ''https://synbiohub.org/public/igem/BBa_K100'']\<rparr>)"
  by (simp add: retrieve_genbank_accessions_def retrieve_igem_parts_def igem_body_def Let_def
      example_env_def empty_world_def sbol_uri_to_accession_def removeprefix_def startswith_def
      replace_char_def iGEM_SOURCE_PREFIX_def NCBI_PREFIX_def SBOL_iGEM_PATTERN_def
      path_join_def endswith_def IGEM_SBOL2_CACHE_FILE_def GENBANK_CACHE_FILE_def
      append_file_def accession_to_sbol_uri_def dot_sanitizer_def)

lemma example_routes:
  "routed_to [NCBI_PREFIX, ''https://synbiohub.org/public/igem/'', ''http://parts.igem.org/'',
              ''https://synbiohub'']
     [''ftp://elsewhere/x'', ''http://parts.igem.org/K100'',
      ''https://www.ncbi.nlm.nih.gov/nuccore/AB1_1''] NCBI_PREFIX
     = [''https://www.ncbi.nlm.nih.gov/nuccore/AB1_1'']"
  "routed_to [NCBI_PREFIX, ''https://synbiohub.org/public/igem/'', ''http://parts.igem.org/'',
              ''https://synbiohub'']
     [''ftp://elsewhere/x'', ''http://parts.igem.org/K100'',
      ''https://www.ncbi.nlm.nih.gov/nuccore/AB1_1''] ''https://synbiohub.org/public/igem/'' = []"
  "routed_to [NCBI_PREFIX, ''https://synbiohub.org/public/igem/'', ''http://parts.igem.org/'',
              ''https://synbiohub'']
     [''ftp://elsewhere/x'', ''http://parts.igem.org/K100'',
      ''https://www.ncbi.nlm.nih.gov/nuccore/AB1_1''] ''http://parts.igem.org/''
     = [''http://parts.igem.org/K100'']"
  "routed_to [NCBI_PREFIX, ''https://synbiohub.org/public/igem/'', ''http://parts.igem.org/'',
              ''https://synbiohub'']
     [''ftp://elsewhere/x'', ''http://parts.igem.org/K100'',
      ''https://www.ncbi.nlm.nih.gov/nuccore/AB1_1''] ''https://synbiohub'' = []"
  by (simp_all add: routed_to_def first_match_def startswith_def NCBI_PREFIX_def)

lemma example_routes_overlap:
  "routed_to [NCBI_PREFIX, ''https://synbiohub.org/public/igem/'', ''http://parts.igem.org/'',
              ''https://synbiohub'']
     [''https://synbiohub.org/public/igem/BBa_K100''] ''https://synbiohub.org/public/igem/''
     = [''https://synbiohub.org/public/igem/BBa_K100'']"
  "routed_to [NCBI_PREFIX, ''https://synbiohub.org/public/igem/'', ''http://parts.igem.org/'',
              ''https://synbiohub'']
     [''https://synbiohub.org/public/igem/BBa_K100''] ''https://synbiohub'' = []"
  "startswith ''https://synbiohub.org/public/igem/BBa_K100'' ''https://synbiohub''"
  by (simp_all add: routed_to_def first_match_def startswith_def NCBI_PREFIX_def)

text \<open>A run with an NCBI accession, a registry part and a URI that no prefix matches; and
  the routing of a URI that starts with the second and with the fourth prefix.\<close>

theorem retrieve_parts_routing_witness:
  "retrieve_parts example_env
     [''ftp://elsewhere/x'', ''http://parts.igem.org/K100'',
      ''https://www.ncbi.nlm.nih.gov/nuccore/AB1_1''] ''pkg'' empty_world
   = (Inr [''https://www.ncbi.nlm.nih.gov/nuccore/AB1_1'', ''http://parts.igem.org/K100''],
      empty_world\<lparr>sbol2_files := [''pkg/iGEM_SBOL2_imports.xml'' \<mapsto>
                                     [''https://synbiohub.org/public/igem/BBa_K100'']],
                  text_files := [''pkg/GenBank_imports.gb'' \<mapsto> ''LOCUS AB1''],
                  net_log := [Efetch ''AB1.1'',
                              Pull ''https://synbiohub.org''
                                ''https://synbiohub.org/public/igem/BBa_K100'']\<rparr>)
   \<and> startswith ''https://synbiohub.org/public/igem/BBa_K100'' ''https://synbiohub''
   \<and> routed_to [NCBI_PREFIX, ''https://synbiohub.org/public/igem/'', ''http://parts.igem.org/'',
              ''https://synbiohub'']
       [''https://synbiohub.org/public/igem/BBa_K100''] ''https://synbiohub.org/public/igem/''
       = [''https://synbiohub.org/public/igem/BBa_K100'']
   \<and> routed_to [NCBI_PREFIX, ''https://synbiohub.org/public/igem/'', ''http://parts.igem.org/'',
              ''https://synbiohub'']
       [''https://synbiohub.org/public/igem/BBa_K100''] ''https://synbiohub'' = []"
  using retrieve_parts_routing [OF refl, of example_env
      "[''ftp://elsewhere/x'', ''http://parts.igem.org/K100'',
        ''https://www.ncbi.nlm.nih.gov/nuccore/AB1_1'']" "''pkg''" empty_world]
    example_routing_run example_routes_overlap
  by (simp only: example_routes simp_thms)

subsection \<open>The reconciler\<close>

text \<open>
  Claim C1, as amended. When the specification is read and has the collection of basic
  parts, every member of the collection resolves, and the scan of the package raises
  nothing, the missing set is the set of the identities of the parts without a sequence
  that are not keys of the alias map. If it is empty, \<open>import_parts\<close> returns the empty
  list and sends nothing; otherwise it returns what \<open>retrieve_parts\<close> returns for the
  missing identities in ascending order.
\<close>

theorem import_parts_missing:
  fixes env :: "'o env"
  assumes spec: "read_spec env (path_join (path_join package (EXPORT_DIRECTORY env))
                   (SBOL_EXPORT_NAME env)) = Inr package_spec"
    and parts: "package_spec BASIC_PARTS_COLLECTION = Some (map Some package_parts)"
    and inv: "package_parts_inventory env package = (Inr inventory, ws)"
    and missing: "missing = {u. (\<exists>p \<in> set package_parts. part_identity p = u \<and> part_sequences p = [])
                     \<and> u \<notin> dom (aliases inventory)}"
    and w1: "w1 = w\<lparr>warnings := warnings w @ ws\<rparr>"
  shows "(missing = {} \<longrightarrow> import_parts env package w = (Inr [], w1))
       \<and> (missing \<noteq> {} \<longrightarrow>
            import_parts env package w = retrieve_parts env (sorted_list_of_set missing) package w1)
       \<and> sorted (sorted_list_of_set missing) \<and> distinct (sorted_list_of_set missing)
       \<and> set (sorted_list_of_set missing) = missing
       \<and> net_log w1 = net_log w \<and> sbol2_files w1 = sbol2_files w \<and> text_files w1 = text_files w"
proof -
  have fin: "finite missing"
  proof (rule finite_subset)
    show "missing \<subseteq> part_identity ` set package_parts" unfolding missing by auto
    show "finite (part_identity ` set package_parts)" by simp
  qed
  have m: "{part_identity p | p. Some p \<in> set (map Some package_parts) \<and> part_sequences p = []}
             - dom (aliases inventory) = missing"
    unfolding missing by auto
  have n: "None \<notin> set (map Some package_parts)" by auto
  have i: "import_parts env package w =
             (if missing = {} then (Inr [], w1)
              else retrieve_parts env (sorted_list_of_set missing) package w1)"
    by (simp only: import_parts_def spec parts inv w1 [symmetric]
        sum.case option.case prod.case Let_def n if_False m)
  from i fin w1 show ?thesis by simp
qed

lemma example_retrieve_missing:
  "retrieve_parts example_env [''http://parts.igem.org/K404''] ''pkg''
     (empty_world\<lparr>warnings := [{}]\<rparr>)
   = (Inr [''http://parts.igem.org/K404''],
      empty_world\<lparr>text_files := [''pkg/iGEM_raw_imports.fasta'' \<mapsto>
                                     ''> K404'' @ [CHR 0x0A] @ ''atgc'' @ [CHR 0x0A]],
                  net_log := [Pull ''https://synbiohub.org''
                                ''https://synbiohub.org/public/igem/BBa_K404'',
                              Urlopen ''http://parts.igem.org/cgi/partsdb/composite_edit/putseq.cgi?part=K404'' 5],
                  warnings := [{}]\<rparr>)"
  by (simp add: retrieve_parts_def source_list_def retrieve_igem_parts_def igem_body_def Let_def
      example_env_def empty_world_def sbol_uri_to_accession_def removeprefix_def startswith_def
      replace_char_def iGEM_SOURCE_PREFIX_def NCBI_PREFIX_def SBOL_iGEM_PATTERN_def
      FASTA_iGEM_PATTERN_def path_join_def endswith_def IGEM_SBOL2_CACHE_FILE_def
      IGEM_FASTA_CACHE_FILE_def append_file_def strip_def isspace_def)

lemma example_spec:
  "read_spec example_env (path_join (path_join ''pkg'' (EXPORT_DIRECTORY example_env))
                   (SBOL_EXPORT_NAME example_env))
   = Inr (\<lambda>name. if name = ''BasicParts''
          then Some [Some \<lparr>part_identity = ''https://example.org/pkg/P1'', part_sequences = [''s1'']\<rparr>,
                     Some \<lparr>part_identity = ''http://parts.igem.org/K200'', part_sequences = []\<rparr>,
                     Some \<lparr>part_identity = ''http://parts.igem.org/K404'', part_sequences = []\<rparr>]
          else None)"
  by (simp add: example_env_def)

lemma example_missing:
  "{u. (\<exists>p \<in> set [\<lparr>part_identity = ''https://example.org/pkg/P1'', part_sequences = [''s1'']\<rparr>,
                     \<lparr>part_identity = ''http://parts.igem.org/K200'', part_sequences = []\<rparr>,
                     \<lparr>part_identity = ''http://parts.igem.org/K404'', part_sequences = []\<rparr>].
          part_identity p = u \<and> part_sequences p = [])
      \<and> u \<notin> dom [''http://parts.igem.org/K200'' \<mapsto> ''http://parts.igem.org/K200'']}
   = {''http://parts.igem.org/K404''}"
  by auto

lemma example_inventory_satisfied:
  "package_parts_inventory example_env_satisfied ''pkg'' =
     (Inr \<lparr>files = {example_fasta_file},
           locations = [''http://parts.igem.org/K200'' \<mapsto> example_fasta_file],
           aliases = [''http://parts.igem.org/K200'' \<mapsto> ''http://parts.igem.org/K200'']\<rparr>,
      [{}])"
  by (simp add: package_parts_inventory_def sorted_glob_def example_env_satisfied_def
      example_env_def path_join_def
      endswith_def basename_def IGEM_FASTA_CACHE_FILE_def iGEM_SOURCE_PREFIX_def
      ImportFile_init_def removesuffix_def add_logged_def add_eq PackageInventory_init_def
      accession_to_sbol_uri_def dot_sanitizer_def replace_char_def example_fasta_file_def
      fun_eq_iff Let_def)

lemma example_spec_satisfied:
  "read_spec example_env_satisfied
     (path_join (path_join ''pkg'' (EXPORT_DIRECTORY example_env_satisfied))
                   (SBOL_EXPORT_NAME example_env_satisfied))
   = Inr (\<lambda>name. if name = ''BasicParts''
          then Some [Some \<lparr>part_identity = ''https://example.org/pkg/P1'', part_sequences = [''s1'']\<rparr>,
                     Some \<lparr>part_identity = ''http://parts.igem.org/K200'', part_sequences = []\<rparr>]
          else None)"
  by (simp add: example_env_satisfied_def)

lemma example_missing_satisfied:
  "{u. (\<exists>p \<in> set [\<lparr>part_identity = ''https://example.org/pkg/P1'', part_sequences = [''s1'']\<rparr>,
                     \<lparr>part_identity = ''http://parts.igem.org/K200'', part_sequences = []\<rparr>].
          part_identity p = u \<and> part_sequences p = [])
      \<and> u \<notin> dom [''http://parts.igem.org/K200'' \<mapsto> ''http://parts.igem.org/K200'']}
   = {}"
  by auto

text \<open>The sample package, where \<open>K404\<close> is missing, and the package that misses nothing.\<close>

theorem import_parts_missing_witness:
  "import_parts example_env ''pkg'' empty_world
   = (Inr [''http://parts.igem.org/K404''],
      empty_world\<lparr>text_files := [''pkg/iGEM_raw_imports.fasta'' \<mapsto>
                                     ''> K404'' @ [CHR 0x0A] @ ''atgc'' @ [CHR 0x0A]],
                  net_log := [Pull ''https://synbiohub.org''
                                ''https://synbiohub.org/public/igem/BBa_K404'',
                              Urlopen ''http://parts.igem.org/cgi/partsdb/composite_edit/putseq.cgi?part=K404'' 5],
                  warnings := [{}]\<rparr>)
   \<and> import_parts example_env_satisfied ''pkg'' empty_world
     = (Inr [], empty_world\<lparr>warnings := [{}]\<rparr>)"
proof -
  have p: "(\<lambda>name. if name = ''BasicParts''
          then Some [Some \<lparr>part_identity = ''https://example.org/pkg/P1'', part_sequences = [''s1'']\<rparr>,
                     Some \<lparr>part_identity = ''http://parts.igem.org/K200'', part_sequences = []\<rparr>,
                     Some \<lparr>part_identity = ''http://parts.igem.org/K404'', part_sequences = []\<rparr>]
          else None) BASIC_PARTS_COLLECTION
        = Some (map Some [\<lparr>part_identity = ''https://example.org/pkg/P1'', part_sequences = [''s1'']\<rparr>,
                     \<lparr>part_identity = ''http://parts.igem.org/K200'', part_sequences = []\<rparr>,
                     \<lparr>part_identity = ''http://parts.igem.org/K404'', part_sequences = []\<rparr>])"
    by (simp add: BASIC_PARTS_COLLECTION_def)
  have q: "(\<lambda>name. if name = ''BasicParts''
          then Some [Some \<lparr>part_identity = ''https://example.org/pkg/P1'', part_sequences = [''s1'']\<rparr>,
                     Some \<lparr>part_identity = ''http://parts.igem.org/K200'', part_sequences = []\<rparr>]
          else None) BASIC_PARTS_COLLECTION
        = Some (map Some [\<lparr>part_identity = ''https://example.org/pkg/P1'', part_sequences = [''s1'']\<rparr>,
                     \<lparr>part_identity = ''http://parts.igem.org/K200'', part_sequences = []\<rparr>])"
    by (simp add: BASIC_PARTS_COLLECTION_def)
  have a: "aliases \<lparr>files = {example_fasta_file},
           locations = [''http://parts.igem.org/K200'' \<mapsto> example_fasta_file],
           aliases = [''http://parts.igem.org/K200'' \<mapsto> ''http://parts.igem.org/K200'']\<rparr>
        = [''http://parts.igem.org/K200'' \<mapsto> ''http://parts.igem.org/K200'']"
    by simp
  have w: "empty_world\<lparr>warnings := warnings empty_world @ [{}]\<rparr> = empty_world\<lparr>warnings := [{}]\<rparr>"
    by (simp add: empty_world_def)
  show ?thesis
    using import_parts_missing [OF example_spec p example_inventory refl refl, of empty_world]
      import_parts_missing [OF example_spec_satisfied q example_inventory_satisfied refl refl,
        of empty_world]
    unfolding a example_missing example_missing_satisfied w
    by (simp add: example_retrieve_missing)
qed

text \<open>
  The specification exists and names the collection of basic parts in both packages.
  In the first a member does not resolve, and reading its identity raises; in the
  second no part can be missing, and the scan raises before the missing set is computed.
\<close>

lemma example_inventory_unresolved:
  "package_parts_inventory example_env_unresolved ''pkg'' =
     (Inr \<lparr>files = {example_fasta_file},
           locations = [''http://parts.igem.org/K200'' \<mapsto> example_fasta_file],
           aliases = [''http://parts.igem.org/K200'' \<mapsto> ''http://parts.igem.org/K200'']\<rparr>,
      [{}])"
  by (simp add: package_parts_inventory_def sorted_glob_def example_env_unresolved_def
      example_env_def path_join_def
      endswith_def basename_def IGEM_FASTA_CACHE_FILE_def iGEM_SOURCE_PREFIX_def
      ImportFile_init_def removesuffix_def add_logged_def add_eq PackageInventory_init_def
      accession_to_sbol_uri_def dot_sanitizer_def replace_char_def example_fasta_file_def
      fun_eq_iff Let_def)

lemma example_inventory_unreadable:
  "package_parts_inventory example_env_unreadable ''pkg'' = (Inl IOError, [])"
  by (simp add: package_parts_inventory_def sorted_glob_def example_env_unreadable_def
      example_env_def path_join_def endswith_def Let_def)

lemma example_spec_unresolved:
  "read_spec example_env_unresolved
     (path_join (path_join ''pkg'' (EXPORT_DIRECTORY example_env_unresolved))
                   (SBOL_EXPORT_NAME example_env_unresolved))
   = Inr (\<lambda>name. if name = ''BasicParts''
          then Some [Some \<lparr>part_identity = ''https://example.org/pkg/P1'', part_sequences = [''s1'']\<rparr>,
                     None]
          else None)"
  by (simp add: example_env_unresolved_def)

lemma example_spec_unreadable:
  "read_spec example_env_unreadable
     (path_join (path_join ''pkg'' (EXPORT_DIRECTORY example_env_unreadable))
                   (SBOL_EXPORT_NAME example_env_unreadable))
   = Inr (\<lambda>name. if name = ''BasicParts''
          then Some [Some \<lparr>part_identity = ''https://example.org/pkg/P1'', part_sequences = [''s1'']\<rparr>]
          else None)"
  by (simp add: example_env_unreadable_def)

theorem import_parts_raises_counterexample:
  "import_parts example_env_unresolved ''pkg'' empty_world
     = (Inl AttributeError, empty_world\<lparr>warnings := [{}]\<rparr>)
   \<and> import_parts example_env_unreadable ''pkg'' empty_world = (Inl IOError, empty_world)"
proof
  show "import_parts example_env_unresolved ''pkg'' empty_world
     = (Inl AttributeError, empty_world\<lparr>warnings := [{}]\<rparr>)"
    by (simp add: import_parts_def example_spec_unresolved example_inventory_unresolved
        BASIC_PARTS_COLLECTION_def empty_world_def)
  show "import_parts example_env_unreadable ''pkg'' empty_world = (Inl IOError, empty_world)"
    by (simp add: import_parts_def example_spec_unreadable example_inventory_unreadable
        BASIC_PARTS_COLLECTION_def empty_world_def)
qed

subsection \<open>The collator\<close>

lemma set_rewrite_triple:
  "set (rewrite_triple new t g) = insert (fst t, fst (snd t), URIRef new) (set g) - {t}"
  by (cases t) (auto simp: rewrite_triple_def graph_add_def graph_remove_def)

lemma set_fold_rewrite_triple:
  assumes "\<forall>t \<in> set ts. snd (snd t) = URIRef old" and "new \<noteq> old"
  shows "set (fold (rewrite_triple new) ts g) =
         (set g \<union> (\<lambda>t. (fst t, fst (snd t), URIRef new)) ` set ts) - set ts"
  using assms(1)
proof (induction ts arbitrary: g)
  case Nil
  show ?case by simp
next
  case (Cons t ts)
  have "set (fold (rewrite_triple new) (t # ts) g) =
        (set (rewrite_triple new t g) \<union> (\<lambda>t. (fst t, fst (snd t), URIRef new)) ` set ts) - set ts"
    using Cons by simp
  also have "\<dots> = (set g \<union> (\<lambda>t. (fst t, fst (snd t), URIRef new)) ` set (t # ts)) - set (t # ts)"
    using Cons.prems assms(2) by (auto simp: set_rewrite_triple)
  finally show ?case .
qed

lemma set_rewrite_identity:
  assumes "new \<noteq> old"
  shows "set (rewrite_identity (old, new) g) = substitute_object [(old, new)] ` set g"
proof -
  have ts: "\<forall>t \<in> set (triples_with_object (URIRef old) g). snd (snd t) = URIRef old"
    by (simp add: triples_with_object_def)
  have "set (rewrite_identity (old, new) g) =
        (set g \<union> (\<lambda>t. (fst t, fst (snd t), URIRef new)) ` set (triples_with_object (URIRef old) g))
          - set (triples_with_object (URIRef old) g)"
    by (simp add: rewrite_identity_def set_fold_rewrite_triple [OF ts assms])
  also have "\<dots> = substitute_object [(old, new)] ` set g"
  proof (rule set_eqI)
    fix x :: triple
    obtain s p ob where x: "x = (s, p, ob)" by (cases x)
    show "x \<in> (set g \<union> (\<lambda>t. (fst t, fst (snd t), URIRef new)) ` set (triples_with_object (URIRef old) g))
          - set (triples_with_object (URIRef old) g)
      \<longleftrightarrow> x \<in> substitute_object [(old, new)] ` set g"
    proof
      assume "x \<in> (set g \<union> (\<lambda>t. (fst t, fst (snd t), URIRef new)) ` set (triples_with_object (URIRef old) g))
          - set (triples_with_object (URIRef old) g)"
      then consider (keep) "x \<in> set g" "ob \<noteq> URIRef old"
        | (new) "(s, p, URIRef old) \<in> set g" "ob = URIRef new"
        using x by (auto simp: triples_with_object_def)
      then show "x \<in> substitute_object [(old, new)] ` set g"
      proof cases
        case keep
        then have "substitute_object [(old, new)] x = x"
          using x by (cases ob) (auto simp: substitute_object_def)
        with keep(1) show ?thesis by force
      next
        case new
        have "substitute_object [(old, new)] (s, p, URIRef old) = x"
          using new(2) x by (simp add: substitute_object_def)
        with new(1) show ?thesis by force
      qed
    next
      assume "x \<in> substitute_object [(old, new)] ` set g"
      then obtain ob0 where y: "(s, p, ob0) \<in> set g" and ob: "ob = rewrite_node [(old, new)] ob0"
        using x by (auto simp: substitute_object_def)
      show "x \<in> (set g \<union> (\<lambda>t. (fst t, fst (snd t), URIRef new)) ` set (triples_with_object (URIRef old) g))
          - set (triples_with_object (URIRef old) g)"
      proof (cases "ob0 = URIRef old")
        case True
        with ob have "ob = URIRef new" by simp
        moreover from True y have "(s, p, URIRef old) \<in> set (triples_with_object (URIRef old) g)"
          by (simp add: triples_with_object_def)
        ultimately show ?thesis using x assms by (force simp: triples_with_object_def)
      next
        case False
        with ob have "ob = ob0" by (cases ob0) auto
        with False y x show ?thesis by (auto simp: triples_with_object_def)
      qed
    qed
  qed
  finally show ?thesis .
qed

lemma rewrite_node_Cons:
  assumes "new \<notin> set (map fst rest)"
  shows "rewrite_node rest (rewrite_node [(old, new)] n) = rewrite_node ((old, new) # rest) n"
proof (cases n)
  case (URIRef u)
  from assms have "map_of rest new = None" by (simp add: map_of_eq_None_iff)
  with URIRef show ?thesis by simp
qed simp_all

lemma set_apply_rewriting_plan:
  assumes "set (map snd plan) \<inter> set (map fst plan) = {}"
  shows "set (apply_rewriting_plan plan g) = substitute_object plan ` set g"
  using assms
proof (induction plan arbitrary: g)
  case Nil
  have "substitute_object [] t = t" for t
    by (cases t, cases "snd (snd t)") (auto simp: substitute_object_def)
  then show ?case by (simp add: apply_rewriting_plan_def)
next
  case (Cons e rest)
  obtain old new where e: "e = (old, new)" by (cases e)
  from Cons.prems e have ne: "new \<noteq> old" and nk: "new \<notin> set (map fst rest)"
    and rest: "set (map snd rest) \<inter> set (map fst rest) = {}"
    by auto
  have comp: "substitute_object rest (substitute_object [(old, new)] t)
              = substitute_object ((old, new) # rest) t" for t
    using rewrite_node_Cons [OF nk] by (cases t) (simp add: substitute_object_def)
  have "set (apply_rewriting_plan (e # rest) g) =
        set (apply_rewriting_plan rest (rewrite_identity e g))"
    by (simp add: apply_rewriting_plan_def)
  also have "\<dots> = substitute_object rest ` set (rewrite_identity e g)"
    using Cons.IH [OF rest] .
  also have "\<dots> = substitute_object rest ` substitute_object [(old, new)] ` set g"
    by (simp only: e set_rewrite_identity [OF ne])
  also have "\<dots> = substitute_object (e # rest) ` set g"
    by (simp add: image_image comp e)
  finally show ?case .
qed

lemma rewrite_node_not_old:
  assumes "set (map snd plan) \<inter> set (map fst plan) = {}" and "old \<in> set (map fst plan)"
  shows "rewrite_node plan n \<noteq> URIRef old"
proof (cases n)
  case (URIRef u)
  show ?thesis
  proof (cases "map_of plan u")
    case None
    then have "u \<notin> set (map fst plan)" by (simp add: map_of_eq_None_iff)
    with assms(2) None URIRef show ?thesis by auto
  next
    case (Some new)
    then have "new \<in> set (map snd plan)" by (force dest: map_of_SomeD)
    with assms have "new \<noteq> old" by auto
    with Some URIRef show ?thesis by simp
  qed
qed simp_all

lemma rewriting_plan_keys:
  "set (map fst (rewriting_plan inventory to_remove)) =
     {identity ob | ob. ob \<in> set to_remove \<and> the (aliases inventory (identity ob)) \<noteq> identity ob}"
  by (auto simp: rewriting_plan_def)

text \<open>
  Claim C6, as amended. The rewriting plan holds the identities of the removed
  placeholders whose alias is another identity. When no alias of the plan is itself an
  identity of the plan, the statements of the output graph are those of the merged
  document with every object term that is an identity of the plan replaced by its
  alias, subject and predicate unchanged, and no statement of the output has an
  identity of the plan as object.
\<close>

theorem collate_rewrites_references:
  fixes env :: "'o env"
  assumes spec: "read_sbol3 env (path_join (path_join package (EXPORT_DIRECTORY env))
                   (SBOL_EXPORT_NAME env)) = Inr d"
    and inv: "package_parts_inventory env package = (Inr inventory, ws)"
    and removed: "to_remove = filter (\<lambda>ob. identity ob \<in> dom (aliases inventory)) d"
    and plan: "plan = rewriting_plan inventory to_remove"
    and chain: "set (map snd plan) \<inter> set (map fst plan) = {}"
    and result: "collate_graph env graph_of package fs = Inr g"
  shows "(\<exists>d2. import_files env fs (fold remove1 to_remove d) = Inr d2
            \<and> set g = substitute_object plan ` set (graph_of d2))
       \<and> (\<forall>t \<in> set g. \<forall>old \<in> set (map fst plan). snd (snd t) \<noteq> URIRef old)
       \<and> set (map fst plan) =
           {identity ob | ob. ob \<in> set to_remove \<and> the (aliases inventory (identity ob)) \<noteq> identity ob}"
proof (intro conjI)
  have "collate_graph env graph_of package fs =
          (case import_files env fs (fold remove1 to_remove d) of
             Inl e \<Rightarrow> Inl e
           | Inr d2 \<Rightarrow> Inr (apply_rewriting_plan plan (graph_of d2)))"
    by (simp only: collate_graph_def spec inv fst_conv sum.case Let_def removed [symmetric]
        plan [symmetric])
  with result obtain d2 where d2: "import_files env fs (fold remove1 to_remove d) = Inr d2"
    and g: "g = apply_rewriting_plan plan (graph_of d2)"
    by (auto split: sum.splits)
  from g have s: "set g = substitute_object plan ` set (graph_of d2)"
    by (simp add: set_apply_rewriting_plan [OF chain])
  with d2 show "\<exists>d2. import_files env fs (fold remove1 to_remove d) = Inr d2
            \<and> set g = substitute_object plan ` set (graph_of d2)"
    by blast
  show "\<forall>t \<in> set g. \<forall>old \<in> set (map fst plan). snd (snd t) \<noteq> URIRef old"
  proof (intro ballI)
    fix t old
    assume "t \<in> set g" and old: "old \<in> set (map fst plan)"
    with s obtain t0 where "t = substitute_object plan t0" by auto
    then have "snd (snd t) = rewrite_node plan (snd (snd t0))"
      by (cases t0) (simp add: substitute_object_def)
    with rewrite_node_not_old [OF chain old] show "snd (snd t) \<noteq> URIRef old" by simp
  qed
  show "set (map fst plan) =
           {identity ob | ob. ob \<in> set to_remove \<and> the (aliases inventory (identity ob)) \<noteq> identity ob}"
    unfolding plan by (rule rewriting_plan_keys)
qed

lemma example_spec_doc:
  "read_sbol3 example_env (path_join (path_join ''pkg'' (EXPORT_DIRECTORY example_env))
                   (SBOL_EXPORT_NAME example_env))
   = Inr [Collection ''https://example.org/pkg/BasicParts''
             [''https://example.org/pkg/P1'', ''http://parts.igem.org/K200'',
              ''http://parts.igem.org/K404''],
           Component ''https://example.org/pkg/P1'' [''https://example.org/pkg/P1_sequence''],
           Component ''http://parts.igem.org/K200'' [],
           Component ''http://parts.igem.org/K404'' []]"
  by (simp add: example_env_def)

lemma example_fasta_doc:
  "get_sbol3_doc example_env example_fasta_file [] =
     (Inr [Sequence ''http://parts.igem.org/K200_sequence'' ''K200'' ''K200'' ''atgc'',
           Component ''http://parts.igem.org/K200'' [''http://parts.igem.org/K200_sequence'']],
      example_fasta_file, [''pkg/iGEM_raw_imports.fasta''])"
  by (simp add: get_sbol3_doc_def example_fasta_file_def example_env_def fasta_objects_def
      Let_def dot_sanitizer_def replace_char_def)

text \<open>
  A placeholder whose alias is its own identity is removed and not rewritten: the
  collection still refers to \<open>K200\<close>, now the component imported from the cache.
\<close>

theorem collate_keeps_self_alias_counterexample:
  "collate_graph example_env example_graph_of ''pkg'' [example_fasta_file] =
     Inr [(URIRef ''https://example.org/pkg/BasicParts'', URIRef ''http://sbols.org/v3#member'',
           URIRef ''https://example.org/pkg/P1''),
          (URIRef ''https://example.org/pkg/BasicParts'', URIRef ''http://sbols.org/v3#member'',
           URIRef ''http://parts.igem.org/K200''),
          (URIRef ''https://example.org/pkg/BasicParts'', URIRef ''http://sbols.org/v3#member'',
           URIRef ''http://parts.igem.org/K404''),
          (URIRef ''https://example.org/pkg/P1'', URIRef ''http://sbols.org/v3#hasSequence'',
           URIRef ''https://example.org/pkg/P1_sequence''),
          (URIRef ''http://parts.igem.org/K200_sequence'', URIRef ''http://sbols.org/v3#elements'',
           Literal ''atgc''),
          (URIRef ''http://parts.igem.org/K200'', URIRef ''http://sbols.org/v3#hasSequence'',
           URIRef ''http://parts.igem.org/K200_sequence'')]
   \<and> filter (\<lambda>ob. identity ob \<in>
               dom [''http://parts.igem.org/K200'' \<mapsto> ''http://parts.igem.org/K200''])
       [Collection ''https://example.org/pkg/BasicParts''
             [''https://example.org/pkg/P1'', ''http://parts.igem.org/K200'',
              ''http://parts.igem.org/K404''],
           Component ''https://example.org/pkg/P1'' [''https://example.org/pkg/P1_sequence''],
           Component ''http://parts.igem.org/K200'' [],
           Component ''http://parts.igem.org/K404'' []]
     = [Component ''http://parts.igem.org/K200'' []]"
  by (simp add: collate_graph_def example_spec_doc example_inventory example_fasta_doc
      rewriting_plan_def apply_rewriting_plan_def example_graph_of_def)

lemma example_genbank_inventory:
  "package_parts_inventory example_env_genbank ''pkg'' =
     (Inr \<lparr>files = {example_genbank_file},
           locations = [''https://www.ncbi.nlm.nih.gov/nuccore/AB1'' \<mapsto> example_genbank_file],
           aliases = [''https://www.ncbi.nlm.nih.gov/nuccore/AB1_1'' \<mapsto>
                        ''https://www.ncbi.nlm.nih.gov/nuccore/AB1'',
                      ''https://www.ncbi.nlm.nih.gov/nuccore/AB1'' \<mapsto>
                        ''https://www.ncbi.nlm.nih.gov/nuccore/AB1'']\<rparr>,
      [{}])"
  by (simp add: package_parts_inventory_def sorted_glob_def example_env_genbank_def
      example_env_def path_join_def
      endswith_def basename_def GENBANK_CACHE_FILE_def NCBI_PREFIX_def
      ImportFile_init_def removesuffix_def add_logged_def add_eq PackageInventory_init_def
      accession_to_sbol_uri_def dot_sanitizer_def replace_char_def example_genbank_file_def
      Let_def)
    (auto simp: fun_eq_iff NCBI_PREFIX_def)

lemma example_genbank_spec_doc:
  "read_sbol3 example_env_genbank
     (path_join (path_join ''pkg'' (EXPORT_DIRECTORY example_env_genbank))
                   (SBOL_EXPORT_NAME example_env_genbank))
   = Inr [Collection ''https://example.org/pkg/BasicParts''
             [''https://www.ncbi.nlm.nih.gov/nuccore/AB1_1''],
           Component ''https://www.ncbi.nlm.nih.gov/nuccore/AB1_1'' []]"
  by (simp add: example_env_genbank_def)

lemma example_genbank_doc:
  "get_sbol3_doc example_env_genbank example_genbank_file [] =
     (Inr [Component ''https://www.ncbi.nlm.nih.gov/nuccore/AB1''
             [''https://www.ncbi.nlm.nih.gov/nuccore/AB1_sequence''],
           Sequence ''https://www.ncbi.nlm.nih.gov/nuccore/AB1_sequence'' ''AB1'' ''AB1'' ''atgc''],
      example_genbank_file, [''pkg/GenBank_imports.gb''])"
  by (simp add: get_sbol3_doc_def example_genbank_file_def example_env_genbank_def)

lemma example_genbank_removed:
  "filter (\<lambda>ob. identity ob \<in> dom (aliases
       \<lparr>files = {example_genbank_file},
           locations = [''https://www.ncbi.nlm.nih.gov/nuccore/AB1'' \<mapsto> example_genbank_file],
           aliases = [''https://www.ncbi.nlm.nih.gov/nuccore/AB1_1'' \<mapsto>
                        ''https://www.ncbi.nlm.nih.gov/nuccore/AB1'',
                      ''https://www.ncbi.nlm.nih.gov/nuccore/AB1'' \<mapsto>
                        ''https://www.ncbi.nlm.nih.gov/nuccore/AB1'']\<rparr>))
     [Collection ''https://example.org/pkg/BasicParts''
             [''https://www.ncbi.nlm.nih.gov/nuccore/AB1_1''],
           Component ''https://www.ncbi.nlm.nih.gov/nuccore/AB1_1'' []]
   = [Component ''https://www.ncbi.nlm.nih.gov/nuccore/AB1_1'' []]"
  by simp

lemma example_genbank_plan:
  "rewriting_plan
       \<lparr>files = {example_genbank_file},
           locations = [''https://www.ncbi.nlm.nih.gov/nuccore/AB1'' \<mapsto> example_genbank_file],
           aliases = [''https://www.ncbi.nlm.nih.gov/nuccore/AB1_1'' \<mapsto>
                        ''https://www.ncbi.nlm.nih.gov/nuccore/AB1'',
                      ''https://www.ncbi.nlm.nih.gov/nuccore/AB1'' \<mapsto>
                        ''https://www.ncbi.nlm.nih.gov/nuccore/AB1'']\<rparr>
     [Component ''https://www.ncbi.nlm.nih.gov/nuccore/AB1_1'' []]
   = [(''https://www.ncbi.nlm.nih.gov/nuccore/AB1_1'', ''https://www.ncbi.nlm.nih.gov/nuccore/AB1'')]"
  by (simp add: rewriting_plan_def)

lemma example_genbank_graph:
  "collate_graph example_env_genbank example_graph_of ''pkg'' [example_genbank_file] =
     Inr [(URIRef ''https://example.org/pkg/BasicParts'', URIRef ''http://sbols.org/v3#member'',
           URIRef ''https://www.ncbi.nlm.nih.gov/nuccore/AB1''),
          (URIRef ''https://www.ncbi.nlm.nih.gov/nuccore/AB1'', URIRef ''http://sbols.org/v3#hasSequence'',
           URIRef ''https://www.ncbi.nlm.nih.gov/nuccore/AB1_sequence''),
          (URIRef ''https://www.ncbi.nlm.nih.gov/nuccore/AB1_sequence'',
           URIRef ''http://sbols.org/v3#elements'', Literal ''atgc'')]"
  by (simp add: collate_graph_def example_genbank_spec_doc example_genbank_inventory
      example_genbank_doc rewriting_plan_def apply_rewriting_plan_def example_graph_of_def
      rewrite_identity_def triples_with_object_def rewrite_triple_def graph_add_def
      graph_remove_def)

text \<open>The GenBank cache: the reference to \<open>AB1_1\<close> becomes a reference to \<open>AB1\<close>.\<close>

theorem collate_rewrites_references_witness:
  "collate_graph example_env_genbank example_graph_of ''pkg'' [example_genbank_file] =
     Inr [(URIRef ''https://example.org/pkg/BasicParts'', URIRef ''http://sbols.org/v3#member'',
           URIRef ''https://www.ncbi.nlm.nih.gov/nuccore/AB1''),
          (URIRef ''https://www.ncbi.nlm.nih.gov/nuccore/AB1'', URIRef ''http://sbols.org/v3#hasSequence'',
           URIRef ''https://www.ncbi.nlm.nih.gov/nuccore/AB1_sequence''),
          (URIRef ''https://www.ncbi.nlm.nih.gov/nuccore/AB1_sequence'',
           URIRef ''http://sbols.org/v3#elements'', Literal ''atgc'')]
   \<and> rewriting_plan
       \<lparr>files = {example_genbank_file},
           locations = [''https://www.ncbi.nlm.nih.gov/nuccore/AB1'' \<mapsto> example_genbank_file],
           aliases = [''https://www.ncbi.nlm.nih.gov/nuccore/AB1_1'' \<mapsto>
                        ''https://www.ncbi.nlm.nih.gov/nuccore/AB1'',
                      ''https://www.ncbi.nlm.nih.gov/nuccore/AB1'' \<mapsto>
                        ''https://www.ncbi.nlm.nih.gov/nuccore/AB1'']\<rparr>
       [Component ''https://www.ncbi.nlm.nih.gov/nuccore/AB1_1'' []]
     = [(''https://www.ncbi.nlm.nih.gov/nuccore/AB1_1'', ''https://www.ncbi.nlm.nih.gov/nuccore/AB1'')]
   \<and> snd (snd (URIRef ''https://example.org/pkg/BasicParts'', URIRef ''http://sbols.org/v3#member'',
           URIRef ''https://www.ncbi.nlm.nih.gov/nuccore/AB1''))
       \<noteq> URIRef ''https://www.ncbi.nlm.nih.gov/nuccore/AB1_1''"
proof -
  have chain: "set (map snd [(''https://www.ncbi.nlm.nih.gov/nuccore/AB1_1'',
                              ''https://www.ncbi.nlm.nih.gov/nuccore/AB1'')])
             \<inter> set (map fst [(''https://www.ncbi.nlm.nih.gov/nuccore/AB1_1'',
                              ''https://www.ncbi.nlm.nih.gov/nuccore/AB1'')]) = {}"
    by simp
  show ?thesis
    using collate_rewrites_references [OF example_genbank_spec_doc example_genbank_inventory
        example_genbank_removed [symmetric] example_genbank_plan [symmetric] chain
        example_genbank_graph]
      example_genbank_graph example_genbank_plan
    by simp
qed

end
